theory Spec2Isabelle
  imports Main "HOL-Library.Word"
begin

section \<open>Python values, exceptions and configuration\<close>

text \<open>
  The two cache modules \<^verbatim>\<open>_cache/pgbytea.py\<close> and \<^verbatim>\<open>_cache/pgjsonb_encoded.py\<close>
  are embedded side by side. A Python \<^verbatim>\<open>str\<close> is a \<open>string\<close>, a \<^verbatim>\<open>bytes\<close>
  object a list of 8-bit words, and the two are kept apart by their constructor, as
  Python keeps them apart by their type (\<^verbatim>\<open>b"abc" != "abc"\<close>).
\<close>

type_synonym bytes = "8 word list"

datatype pyval =
    PyNone
  | PyBool bool
  | PyInt int
  | PyStr string
  | PyBytes bytes
  | PyUUID string
  | PyList "pyval list"
  | PyDict "(pyval \<times> pyval) list"

text \<open>The classes of \<^verbatim>\<open>psycopg2\<close> below \<^verbatim>\<open>psycopg2.Error\<close>. Every one of them but
  \<^verbatim>\<open>InterfaceError\<close> is a \<^verbatim>\<open>psycopg2.DatabaseError\<close>.\<close>

datatype pg_error =
    InterfaceError
  | DatabaseError
  | DataError
  | OperationalError
  | IntegrityError
  | InternalError
  | ProgrammingError
  | NotSupportedError

datatype exn =
    SaltMasterError
  | Psycopg pg_error
  | TypeError
  | ValueError
  | IndexError
  | AttributeError
  | BinasciiError
  | DeserializationError

fun is_psycopg_Error :: "exn \<Rightarrow> bool" where
  "is_psycopg_Error (Psycopg _) = True"
| "is_psycopg_Error _ = False"

fun is_DatabaseError :: "exn \<Rightarrow> bool" where
  "is_DatabaseError (Psycopg InterfaceError) = False"
| "is_DatabaseError (Psycopg _) = True"
| "is_DatabaseError _ = False"

text \<open>A value of the host's option dictionary \<^verbatim>\<open>__opts__\<close>.\<close>

datatype optval = ONone | OStr string | OInt int

record options =
  opt_host :: optval
  opt_user :: optval
  opt_password :: optval
  opt_dbname :: optval
  opt_table :: optval
  opt_port :: int

datatype variant = Pgbytea | Pgjsonb_encoded

fun virtualname :: "variant \<Rightarrow> string" where
  "virtualname Pgbytea = ''pgbytea''"
| "virtualname Pgjsonb_encoded = ''pgjsonb_encoded''"

definition option_name :: "variant \<Rightarrow> string \<Rightarrow> string" where
  "option_name var field = ''cache.'' @ virtualname var @ ''.'' @ field"

definition DEFAULT_DATABASE_NAME :: string where
  "DEFAULT_DATABASE_NAME = ''salt_cache''"

definition DEFAULT_TABLE_NAME :: string where
  "DEFAULT_TABLE_NAME = ''salt_cache''"

text \<open>\<^verbatim>\<open>dict.pop(key, default)\<close>: the value and the dictionary without the key.\<close>

definition pop :: "(string \<rightharpoonup> optval) \<Rightarrow> string \<Rightarrow> optval \<Rightarrow> optval \<times> (string \<rightharpoonup> optval)" where
  "pop d k dflt = (case d k of None \<Rightarrow> (dflt, d) | Some v \<Rightarrow> (v, d(k := None)))"

text \<open>\<^verbatim>\<open>int(x)\<close> on an option value. What \<^verbatim>\<open>int\<close> makes of a \<^verbatim>\<open>str\<close> is the
  parameter \<open>str_to_int\<close> (\<open>None\<close> where Python raises \<^verbatim>\<open>ValueError\<close>).\<close>

definition py_int :: "(string \<Rightarrow> int option) \<Rightarrow> optval \<Rightarrow> exn + int" where
  "py_int str_to_int v =
     (case v of
        OInt n \<Rightarrow> Inr n
      | OStr s \<Rightarrow> (case str_to_int s of None \<Rightarrow> Inl ValueError | Some n \<Rightarrow> Inr n)
      | ONone \<Rightarrow> Inl TypeError)"

text \<open>
  \<^verbatim>\<open>_get_options\<close> of both modules, which differ in the module name inside the option
  names only. The pops act on the deep copy, in the order Python evaluates the dictionary
  display (the default of a pop before the pop itself). The second component of the
  result is \<^verbatim>\<open>__opts__\<close> as the call leaves it.
\<close>

definition get_options ::
  "variant \<Rightarrow> (string \<Rightarrow> int option) \<Rightarrow> (string \<rightharpoonup> optval) \<Rightarrow> (exn + options) \<times> (string \<rightharpoonup> optval)" where
  "get_options var str_to_int opts0 =
     (let opts = opts0;
          (host, opts) = pop opts (option_name var ''host'') (OStr ''127.0.0.1'');
          (user, opts) = pop opts (option_name var ''user'') ONone;
          (passwd, opts) = pop opts (option_name var ''passwd'') ONone;
          (password, opts) = pop opts (option_name var ''password'') passwd;
          (database, opts) = pop opts (option_name var ''database'') (OStr DEFAULT_DATABASE_NAME);
          (dbname, opts) = pop opts (option_name var ''dbname'') database;
          (table, opts) = pop opts (option_name var ''table_name'') (OStr DEFAULT_TABLE_NAME);
          (port, opts) = pop opts (option_name var ''port'') (OInt 5432)
      in (case py_int str_to_int port of
            Inl e \<Rightarrow> Inl e
          | Inr p \<Rightarrow> Inr \<lparr>opt_host = host, opt_user = user, opt_password = password,
                         opt_dbname = dbname, opt_table = table, opt_port = p\<rparr>,
          opts0))"

text \<open>\<^verbatim>\<open>str(x)\<close>, as an f-string applies it to a value it interpolates.\<close>

fun str_nat :: "nat \<Rightarrow> string" where
  "str_nat n = (if n < 10 then [char_of (48 + n)] else str_nat (n div 10) @ [char_of (48 + n mod 10)])"

declare str_nat.simps [simp del]

definition py_str :: "optval \<Rightarrow> string" where
  "py_str v =
     (case v of
        OStr s \<Rightarrow> s
      | ONone \<Rightarrow> ''None''
      | OInt n \<Rightarrow> (if n < 0 then ''-'' @ str_nat (nat (- n)) else str_nat (nat n)))"

section \<open>The database\<close>

text \<open>
  A value of a result column, and a row of the cache table of the modules' docstrings.
  The binary module's table has no \<^verbatim>\<open>encoded\<close> column; its rows carry \<open>False\<close> there.
\<close>

datatype cell = CNull | CInt int | CBool bool | CText string | CBytea bytes | CJsonb pyval | CUuid string

record row =
  col_bank :: string
  col_psql_key :: string
  col_data :: cell
  col_id :: string
  col_data_changed :: int
  col_encoded :: bool

text \<open>
  The statements the modules send. The source builds each as text with the table, bank,
  key and payload interpolated; a constructor stands for the text of one f-string and
  carries the interpolated values. \<open>Upsert\<close> is
  \<^verbatim>\<open>INSERT ... ON CONFLICT (bank, psql_key) DO UPDATE SET data = EXCLUDED.data\<close>, with
  \<^verbatim>\<open>encoded = EXCLUDED.encoded\<close> when the flag is given; \<open>Delete\<close> has the
  \<^verbatim>\<open>AND psql_key=...\<close> clause when the key is given. The payload reaches the text
  through an adapter of psycopg2 that quotes it; the bank and the key are spliced in
  between two quote characters as they are. So the strings a constructor carries are the
  ones the source interpolates, not the ones the server reads: \<open>postgres\<close> below gives
  the meaning of a statement by the values of its bank and key, and \<open>pg_server\<close> after
  it reads the text.
\<close>

datatype stmt =
    Upsert string string string cell "bool option"
  | Select_data string string string
  | Select_data_encoded string string string
  | Delete string string "string option"
  | Select_psql_key string string
  | Select_count string string string
  | Select_data_changed string string string
  | Select_id string string string
  | COMMIT
  | ROLLBACK

text \<open>What \<^verbatim>\<open>cursor.fetchall()\<close> hands back; the source also tests it for \<^verbatim>\<open>None\<close>.\<close>

type_synonym result = "cell list list option"

record pgdb =
  committed :: "string \<Rightarrow> row list"
  work :: "string \<Rightarrow> row list"

datatype logarg = ANone | AStr string | ACell cell | ARows result

datatype logmsg = Exc exn | Args exn | Ctx string logarg

datatype event = Connect options | Execute stmt | Close | LogError logmsg

record world =
  db :: pgdb
  trace :: "event list"

text \<open>
  Everything outside the two modules: the host's \<^verbatim>\<open>__opts__\<close>, the database client and
  server (\<open>connect\<close> gives the exception \<^verbatim>\<open>psycopg2.connect\<close> raises, if any;
  \<open>execute\<close> runs one statement on the open transaction and raises or hands back the
  rows), and the library functions the modules call: \<^verbatim>\<open>salt.payload.dumps\<close> and
  \<^verbatim>\<open>loads\<close>, \<^verbatim>\<open>salt.utils.stringutils.to_str\<close> (\<open>None\<close> for
  \<^verbatim>\<open>UnicodeDecodeError\<close>), \<^verbatim>\<open>base64.b64encode(..).decode("utf-8")\<close>,
  \<^verbatim>\<open>base64.b64decode\<close>, \<^verbatim>\<open>uuid.UUID\<close>, and \<open>to_json\<close>: the value a
  \<^verbatim>\<open>jsonb\<close> column reads back as after \<^verbatim>\<open>psycopg2.extras.Json\<close> rendered the given one.
\<close>

record env =
  opts :: "string \<rightharpoonup> optval"
  str_to_int :: "string \<Rightarrow> int option"
  connect :: "options \<Rightarrow> exn option"
  execute :: "stmt \<Rightarrow> pgdb \<Rightarrow> (exn + result) \<times> pgdb"
  dumps :: "pyval \<Rightarrow> bytes"
  loads :: "cell \<Rightarrow> exn + pyval"
  to_str :: "bytes \<Rightarrow> string option"
  b64encode :: "bytes \<Rightarrow> string"
  b64decode :: "pyval \<Rightarrow> exn + bytes"
  to_json :: "pyval \<Rightarrow> exn + pyval"
  uuid_UUID :: "pyval \<Rightarrow> exn + pyval"

subsection \<open>PostgreSQL on the documented table\<close>

definition matches :: "string \<Rightarrow> string option \<Rightarrow> row \<Rightarrow> bool" where
  "matches bank key r =
     (col_bank r = bank \<and> (case key of None \<Rightarrow> True | Some k \<Rightarrow> col_psql_key r = k))"

text \<open>The upsert on the rows of one table. On a conflict the trigger of the docstring
  sets \<^verbatim>\<open>data_changed\<close> when the payload differs; a new row takes the column defaults.\<close>

definition pg_upsert ::
  "int \<Rightarrow> string \<Rightarrow> string \<Rightarrow> string \<Rightarrow> cell \<Rightarrow> bool option \<Rightarrow> row list \<Rightarrow> row list" where
  "pg_upsert now uuid bank key d enc rows =
     (if \<exists>r \<in> set rows. matches bank (Some key) r
      then map (\<lambda>r. if matches bank (Some key) r
                     then r\<lparr>col_data := d,
                            col_encoded := (case enc of None \<Rightarrow> col_encoded r | Some e \<Rightarrow> e),
                            col_data_changed := (if col_data r \<noteq> d then now else col_data_changed r)\<rparr>
                     else r) rows
      else rows @ [\<lparr>col_bank = bank, col_psql_key = key, col_data = d, col_id = uuid,
                     col_data_changed = now,
                     col_encoded = (case enc of None \<Rightarrow> False | Some e \<Rightarrow> e)\<rparr>])"

text \<open>
  The meaning of a statement whose bank and key literals denote the strings \<open>bank\<close>
  and \<open>key\<close> (what the text means when these hold no quote character): \<open>fault\<close>
  says which statement raises and what (a statement that raises changes nothing);
  \<open>now\<close> and \<open>gen_random_uuid\<close> are the clock and the identifier source.
  \<^verbatim>\<open>COUNT(data)\<close> counts the rows whose payload is not \<^verbatim>\<open>NULL\<close>.
\<close>

definition postgres ::
  "(stmt \<Rightarrow> exn option) \<Rightarrow> (pgdb \<Rightarrow> int) \<Rightarrow> (pgdb \<Rightarrow> string) \<Rightarrow> stmt \<Rightarrow> pgdb \<Rightarrow> (exn + result) \<times> pgdb" where
  "postgres fault now gen_random_uuid q d =
     (case fault q of
        Some e \<Rightarrow> (Inl e, d)
      | None \<Rightarrow>
          (case q of
             Upsert t bank key c enc \<Rightarrow>
               (Inr None, d\<lparr>work := (work d)(t := pg_upsert (now d) (gen_random_uuid d) bank key c enc (work d t))\<rparr>)
           | Select_data t bank key \<Rightarrow>
               (Inr (Some [[col_data r]. r \<leftarrow> work d t, matches bank (Some key) r]), d)
           | Select_data_encoded t bank key \<Rightarrow>
               (Inr (Some [[col_data r, CBool (col_encoded r)]. r \<leftarrow> work d t, matches bank (Some key) r]), d)
           | Delete t bank key \<Rightarrow>
               (Inr None, d\<lparr>work := (work d)(t := filter (\<lambda>r. \<not> matches bank key r) (work d t))\<rparr>)
           | Select_psql_key t bank \<Rightarrow>
               (Inr (Some [[CText (col_psql_key r)]. r \<leftarrow> work d t, matches bank None r]), d)
           | Select_count t bank key \<Rightarrow>
               (Inr (Some [[CInt (int (length [r \<leftarrow> work d t. matches bank (Some key) r \<and> col_data r \<noteq> CNull]))]]), d)
           | Select_data_changed t bank key \<Rightarrow>
               (Inr (Some [[CInt (col_data_changed r)]. r \<leftarrow> work d t, matches bank (Some key) r]), d)
           | Select_id t bank key \<Rightarrow>
               (Inr (Some [[CUuid (col_id r)]. r \<leftarrow> work d t, matches bank (Some key) r]), d)
           | COMMIT \<Rightarrow> (Inr None, d\<lparr>committed := work d\<rparr>)
           | ROLLBACK \<Rightarrow> (Inr None, d\<lparr>work := committed d\<rparr>)))"

subsection \<open>The server on the text the modules send\<close>

text \<open>
  The source writes \<^verbatim>\<open>bank='{bank}'\<close> and \<^verbatim>\<open>psql_key='{key}'\<close>. PostgreSQL reads a
  string literal from the opening quote on: two quotes in a row stand for one quote
  character, a single quote ends the literal. \<open>sql_unquote s\<close> is the string the server
  reads when the text between the two quotes is \<open>s\<close> and the literal ends where the
  source meant it to; it is \<open>None\<close> when a quote of \<open>s\<close> ends the literal early or
  swallows the closing quote, or when \<open>s\<close> holds a NUL, which ends the text. A string
  with neither character is read as it is.
\<close>

fun sql_unquote :: "string \<Rightarrow> string option" where
  "sql_unquote [] = Some []"
| "sql_unquote [c] = (if c = CHR 0x27 \<or> c = CHR 0x00 then None else Some [c])"
| "sql_unquote (c # d # cs) =
     (if c = CHR 0x27
      then (if d = CHR 0x27 then map_option ((#) (CHR 0x27)) (sql_unquote cs) else None)
      else if c = CHR 0x00 then None
      else map_option ((#) c) (sql_unquote (d # cs)))"

definition sql_plain :: "string \<Rightarrow> bool" where
  "sql_plain s \<longleftrightarrow> CHR 0x27 \<notin> set s \<and> CHR 0x00 \<notin> set s"

definition unquote2 :: "string \<Rightarrow> string \<Rightarrow> (string \<Rightarrow> string \<Rightarrow> stmt) \<Rightarrow> stmt option" where
  "unquote2 bank key f =
     (case sql_unquote bank of
        None \<Rightarrow> None
      | Some b \<Rightarrow> (case sql_unquote key of None \<Rightarrow> None | Some k \<Rightarrow> Some (f b k)))"

text \<open>The statement the server reads in the text of a statement; \<open>None\<close> when the
  bank or the key breaks the text.\<close>

fun read_stmt :: "stmt \<Rightarrow> stmt option" where
  "read_stmt (Upsert t bank key c enc) = unquote2 bank key (\<lambda>b k. Upsert t b k c enc)"
| "read_stmt (Select_data t bank key) = unquote2 bank key (Select_data t)"
| "read_stmt (Select_data_encoded t bank key) = unquote2 bank key (Select_data_encoded t)"
| "read_stmt (Delete t bank None) = map_option (\<lambda>b. Delete t b None) (sql_unquote bank)"
| "read_stmt (Delete t bank (Some key)) = unquote2 bank key (\<lambda>b k. Delete t b (Some k))"
| "read_stmt (Select_psql_key t bank) = map_option (Select_psql_key t) (sql_unquote bank)"
| "read_stmt (Select_count t bank key) = unquote2 bank key (Select_count t)"
| "read_stmt (Select_data_changed t bank key) = unquote2 bank key (Select_data_changed t)"
| "read_stmt (Select_id t bank key) = unquote2 bank key (Select_id t)"
| "read_stmt COMMIT = Some COMMIT"
| "read_stmt ROLLBACK = Some ROLLBACK"

text \<open>
  The server on the text: the statement it reads has the meaning \<open>postgres\<close> gives
  it. What the server makes of a broken text (a syntax error, or another statement
  altogether, as with the key \<^verbatim>\<open>t' OR 't\<close>) is the parameter \<open>broken\<close>.
\<close>

definition pg_server ::
  "(stmt \<Rightarrow> exn option) \<Rightarrow> (stmt \<Rightarrow> pgdb \<Rightarrow> (exn + result) \<times> pgdb) \<Rightarrow> (pgdb \<Rightarrow> int) \<Rightarrow> (pgdb \<Rightarrow> string)
     \<Rightarrow> stmt \<Rightarrow> pgdb \<Rightarrow> (exn + result) \<times> pgdb" where
  "pg_server fault broken now gen_random_uuid q d =
     (case read_stmt q of
        None \<Rightarrow> broken q d
      | Some q' \<Rightarrow> postgres fault now gen_random_uuid q' d)"

text \<open>The primary key holds in the committed rows and in the open transaction.\<close>

definition pk_ok :: "pgdb \<Rightarrow> bool" where
  "pk_ok d \<longleftrightarrow>
     (\<forall>t. distinct (map (\<lambda>r. (col_bank r, col_psql_key r)) (committed d t)))
     \<and> (\<forall>t. distinct (map (\<lambda>r. (col_bank r, col_psql_key r)) (work d t)))"

section \<open>The connection scope\<close>

definition log_error :: "logmsg \<Rightarrow> world \<Rightarrow> world" where
  "log_error m w = w\<lparr>trace := trace w @ [LogError m]\<rparr>"

text \<open>A new connection sees the committed rows; closing it drops what was not committed.\<close>

definition conn_open :: "options \<Rightarrow> world \<Rightarrow> world" where
  "conn_open options w =
     w\<lparr>db := (db w)\<lparr>work := committed (db w)\<rparr>, trace := trace w @ [Connect options]\<rparr>"

definition conn_close :: "world \<Rightarrow> world" where
  "conn_close w = w\<lparr>db := (db w)\<lparr>work := committed (db w)\<rparr>, trace := trace w @ [Close]\<rparr>"

definition cur_execute :: "env \<Rightarrow> stmt \<Rightarrow> world \<Rightarrow> (exn + result) \<times> world" where
  "cur_execute env q w =
     (case execute env q (db w) of (r, d) \<Rightarrow> (r, w\<lparr>db := d, trace := trace w @ [Execute q]\<rparr>))"

text \<open>
  \<^verbatim>\<open>_get_serv\<close>, the context manager of both modules, with the block of the
  \<^verbatim>\<open>with\<close> statement as the function \<open>body\<close> of the table name. A \<^verbatim>\<open>return\<close> inside the
  block leaves it without an exception, so the \<^verbatim>\<open>else\<close> branch runs; an exception of the
  \<^verbatim>\<open>else\<close> branch is not handled by the \<^verbatim>\<open>except\<close> clause before it.
\<close>

definition get_serv ::
  "variant \<Rightarrow> env \<Rightarrow> bool \<Rightarrow> (string \<Rightarrow> world \<Rightarrow> (exn + 'a) \<times> world) \<Rightarrow> world \<Rightarrow> (exn + 'a) \<times> world" where
  "get_serv var env commit body w =
     (case fst (get_options var (str_to_int env) (opts env)) of
        Inl e \<Rightarrow> (Inl e, w)
      | Inr options \<Rightarrow>
          (case connect env options of
             Some e \<Rightarrow> (if e = Psycopg OperationalError then Inl SaltMasterError else Inl e, w)
           | None \<Rightarrow>
               (case body (py_str (opt_table options)) (conn_open options w) of
                  (Inl e, w1) \<Rightarrow>
                    if is_DatabaseError e
                    then (case cur_execute env ROLLBACK (log_error (Args e) w1) of
                            (Inl e', w2) \<Rightarrow> (Inl e', conn_close w2)
                          | (Inr _, w2) \<Rightarrow> (Inl e, conn_close w2))
                    else (Inl e, conn_close w1)
                | (Inr x, w1) \<Rightarrow>
                    (case cur_execute env (if commit then COMMIT else ROLLBACK) w1 of
                       (Inl e', w2) \<Rightarrow> (Inl e', conn_close w2)
                     | (Inr _, w2) \<Rightarrow> (Inr x, conn_close w2)))))"

section \<open>The operations\<close>

text \<open>
  The binary module takes the table name from the scope
  (\<^verbatim>\<open>with _get_serv(commit=True) as cursor: cur, table = cursor\<close>); the JSON module reads
  it with a call of \<^verbatim>\<open>_get_options\<close> of its own before it opens the scope.
\<close>

definition serv :: "variant \<Rightarrow> env \<Rightarrow> (string \<Rightarrow> world \<Rightarrow> (exn + 'a) \<times> world) \<Rightarrow> world \<Rightarrow> (exn + 'a) \<times> world" where
  "serv var env body w =
     (case var of
        Pgbytea \<Rightarrow> get_serv var env True body w
      | Pgjsonb_encoded \<Rightarrow>
          (case fst (get_options var (str_to_int env) (opts env)) of
             Inl e \<Rightarrow> (Inl e, w)
           | Inr options \<Rightarrow> get_serv var env True (\<lambda>_. body (py_str (opt_table options))) w))"

text \<open>The \<^verbatim>\<open>log.error\<close> lines of an \<^verbatim>\<open>except\<close> block: the exception, then the context.
  The \<^verbatim>\<open>log.debug\<close> lines of the source are left out of the trace.\<close>

definition log_context :: "exn \<Rightarrow> (string \<times> logarg) list \<Rightarrow> world \<Rightarrow> world" where
  "log_context e ctx w =
     w\<lparr>trace := trace w @ LogError (Exc e) # map (\<lambda>(n, a). LogError (Ctx n a)) ctx\<rparr>"

text \<open>The Python value psycopg2 makes of a column value.\<close>

fun py_of_cell :: "cell \<Rightarrow> pyval" where
  "py_of_cell CNull = PyNone"
| "py_of_cell (CInt n) = PyInt n"
| "py_of_cell (CBool b) = PyBool b"
| "py_of_cell (CText s) = PyStr s"
| "py_of_cell (CBytea bs) = PyBytes bs"
| "py_of_cell (CJsonb v) = v"
| "py_of_cell (CUuid s) = PyStr s"

fun truthy :: "pyval \<Rightarrow> bool" where
  "truthy PyNone = False"
| "truthy (PyBool b) = b"
| "truthy (PyInt n) = (n \<noteq> 0)"
| "truthy (PyStr s) = (s \<noteq> [])"
| "truthy (PyBytes bs) = (bs \<noteq> [])"
| "truthy (PyUUID _) = True"
| "truthy (PyList xs) = (xs \<noteq> [])"
| "truthy (PyDict kvs) = (kvs \<noteq> [])"

text \<open>\<^verbatim>\<open>data[0][0]\<close> and \<^verbatim>\<open>data[0][1]\<close> on a list of tuples.\<close>

definition index00 :: "cell list list \<Rightarrow> exn + cell" where
  "index00 data =
     (case data of
        [] \<Rightarrow> Inl IndexError
      | r # _ \<Rightarrow> (case r of [] \<Rightarrow> Inl IndexError | c # _ \<Rightarrow> Inr c))"

definition index01 :: "cell list list \<Rightarrow> exn + cell" where
  "index01 data =
     (case data of
        [] \<Rightarrow> Inl IndexError
      | r # _ \<Rightarrow> (case r of [] \<Rightarrow> Inl IndexError | [_] \<Rightarrow> Inl IndexError | _ # c # _ \<Rightarrow> Inr c))"

definition NIL_UUID :: pyval where
  "NIL_UUID = PyUUID ''00000000-0000-0000-0000-000000000000''"

subsection \<open>store\<close>

definition store_pgbytea :: "env \<Rightarrow> string \<Rightarrow> string \<Rightarrow> pyval \<Rightarrow> world \<Rightarrow> (exn + unit) \<times> world" where
  "store_pgbytea env bank key data w =
     (let d = CBytea (dumps env data) in
      serv Pgbytea env (\<lambda>table w.
        case cur_execute env (Upsert table bank key d None) w of
          (Inr _, w1) \<Rightarrow> (Inr (), w1)
        | (Inl e, w1) \<Rightarrow>
            if e = TypeError \<or> is_psycopg_Error e
            then (Inr (), log_context e
                    [(''table'', AStr table), (''bank'', AStr bank), (''psql_key'', AStr key),
                     (''data'', ACell d)] w1)
            else (Inl e, w1)) w)"

text \<open>The payload and the flag the JSON module's \<^verbatim>\<open>store\<close> arrives at before it adapts
  the payload with \<^verbatim>\<open>psycopg2.extras.Json\<close>.\<close>

definition encode_payload :: "env \<Rightarrow> pyval \<Rightarrow> bool \<times> pyval" where
  "encode_payload env data =
     (case data of
        PyBytes bs \<Rightarrow>
          (case to_str env bs of
             Some s \<Rightarrow> (False, PyStr s)
           | None \<Rightarrow> (True, PyStr (b64encode env bs)))
      | _ \<Rightarrow> (False, data))"

definition store_pgjsonb :: "env \<Rightarrow> string \<Rightarrow> string \<Rightarrow> pyval \<Rightarrow> world \<Rightarrow> (exn + unit) \<times> world" where
  "store_pgjsonb env bank key data w =
     serv Pgjsonb_encoded env (\<lambda>table w.
       case encode_payload env data of
         (encoded, data1) \<Rightarrow>
           (case to_json env data1 of
              Inl e \<Rightarrow> (Inl e, w)
            | Inr j \<Rightarrow>
                (case cur_execute env (Upsert table bank key (CJsonb j) (Some encoded)) w of
                   (Inr _, w1) \<Rightarrow> (Inr (), w1)
                 | (Inl e, w1) \<Rightarrow>
                     if is_psycopg_Error e
                     then (Inr (), log_context e
                             [(''table'', AStr table), (''bank'', AStr bank), (''psql_key'', AStr key),
                              (''data'', ACell (CJsonb j))] w1)
                     else (Inl e, w1)))) w"

subsection \<open>fetch\<close>

text \<open>The \<^verbatim>\<open>try\<close> block of \<^verbatim>\<open>fetch\<close> in each module, and the handler both share: an
  \<^verbatim>\<open>IndexError\<close> is logged and the empty dictionary returned, anything else goes on.\<close>

definition fetch_try_pgbytea :: "env \<Rightarrow> cell list list \<Rightarrow> exn + pyval" where
  "fetch_try_pgbytea env data =
     (case index00 data of Inl e \<Rightarrow> Inl e | Inr c \<Rightarrow> loads env c)"

definition fetch_try_pgjsonb :: "env \<Rightarrow> cell list list \<Rightarrow> exn + pyval" where
  "fetch_try_pgjsonb env data =
     (case index01 data of
        Inl e \<Rightarrow> Inl e
      | Inr flag \<Rightarrow>
          (case index00 data of
             Inl e \<Rightarrow> Inl e
           | Inr c \<Rightarrow>
               if \<not> truthy (py_of_cell flag) then Inr (py_of_cell c)
               else (case b64decode env (py_of_cell c) of Inl e \<Rightarrow> Inl e | Inr bs \<Rightarrow> Inr (PyBytes bs))))"

definition except_IndexError ::
  "string \<Rightarrow> string \<Rightarrow> string \<Rightarrow> result \<Rightarrow> pyval \<Rightarrow> exn + pyval \<Rightarrow> world \<Rightarrow> (exn + pyval) \<times> world" where
  "except_IndexError table bank key data dflt r w =
     (case r of
        Inr v \<Rightarrow> (Inr v, w)
      | Inl e \<Rightarrow>
          if e = IndexError
          then (Inr dflt, log_context e
                  [(''table'', AStr table), (''bank'', AStr bank), (''psql_key'', AStr key),
                   (''data'', ARows data)] w)
          else (Inl e, w))"

definition fetch_pgbytea :: "env \<Rightarrow> string \<Rightarrow> string \<Rightarrow> world \<Rightarrow> (exn + pyval) \<times> world" where
  "fetch_pgbytea env bank key w =
     serv Pgbytea env (\<lambda>table w.
       case cur_execute env (Select_data table bank key) w of
         (Inl e, w1) \<Rightarrow> (Inl e, w1)
       | (Inr None, w1) \<Rightarrow> (Inr (PyDict []), w1)
       | (Inr (Some rows), w1) \<Rightarrow>
           except_IndexError table bank key (Some rows) (PyDict []) (fetch_try_pgbytea env rows) w1) w"

definition fetch_pgjsonb :: "env \<Rightarrow> string \<Rightarrow> string \<Rightarrow> world \<Rightarrow> (exn + pyval) \<times> world" where
  "fetch_pgjsonb env bank key w =
     serv Pgjsonb_encoded env (\<lambda>table w.
       case cur_execute env (Select_data_encoded table bank key) w of
         (Inl e, w1) \<Rightarrow> (Inl e, w1)
       | (Inr None, w1) \<Rightarrow> (Inr (PyDict []), w1)
       | (Inr (Some rows), w1) \<Rightarrow>
           except_IndexError table bank key (Some rows) (PyDict []) (fetch_try_pgjsonb env rows) w1) w"

subsection \<open>flush, list, contains, updated, id\<close>

text \<open>These read the same in both modules. \<^verbatim>\<open>if key:\<close> is Python's truth test: it
  fails for \<^verbatim>\<open>None\<close> and for the empty string.\<close>

definition flush :: "variant \<Rightarrow> env \<Rightarrow> string \<Rightarrow> string option \<Rightarrow> world \<Rightarrow> (exn + bool) \<times> world" where
  "flush var env bank key w =
     serv var env (\<lambda>table w.
       let q = Delete table bank (case key of None \<Rightarrow> None | Some k \<Rightarrow> if k \<noteq> [] then Some k else None) in
       case cur_execute env q w of
         (Inr _, w1) \<Rightarrow> (Inr True, w1)
       | (Inl e, w1) \<Rightarrow>
           if is_psycopg_Error e
           then (Inr False, log_context e
                   [(''table'', AStr table), (''bank'', AStr bank),
                    (''psql_key'', case key of None \<Rightarrow> ANone | Some k \<Rightarrow> AStr k)] w1)
           else (Inl e, w1)) w"

text \<open>\<^verbatim>\<open>tuple(_[0] for _ in data if len(_) == 1) if data else ()\<close>\<close>

definition list_tuple :: "result \<Rightarrow> pyval list" where
  "list_tuple data =
     (case data of
        None \<Rightarrow> []
      | Some rows \<Rightarrow> if rows = [] then [] else [py_of_cell (r ! 0). r \<leftarrow> rows, length r = 1])"

text \<open>\<^verbatim>\<open>list_\<close>, which the loader exports as \<^verbatim>\<open>list\<close>.\<close>

definition cache_list :: "variant \<Rightarrow> env \<Rightarrow> string \<Rightarrow> world \<Rightarrow> (exn + pyval list) \<times> world" where
  "cache_list var env bank w =
     serv var env (\<lambda>table w.
       case cur_execute env (Select_psql_key table bank) w of
         (Inl e, w1) \<Rightarrow> (Inl e, w1)
       | (Inr data, w1) \<Rightarrow> (Inr (list_tuple data), w1)) w"

text \<open>\<^verbatim>\<open>data[0][0] == 1\<close>: Python's \<^verbatim>\<open>True\<close> equals 1 as well; \<^verbatim>\<open>None[0]\<close> is a
  \<^verbatim>\<open>TypeError\<close>.\<close>

definition contains :: "variant \<Rightarrow> env \<Rightarrow> string \<Rightarrow> string \<Rightarrow> world \<Rightarrow> (exn + bool) \<times> world" where
  "contains var env bank key w =
     serv var env (\<lambda>table w.
       case cur_execute env (Select_count table bank key) w of
         (Inl e, w1) \<Rightarrow> (Inl e, w1)
       | (Inr None, w1) \<Rightarrow> (Inl TypeError, w1)
       | (Inr (Some rows), w1) \<Rightarrow>
           (case index00 rows of
              Inl e \<Rightarrow> (Inl e, w1)
            | Inr c \<Rightarrow> (Inr (py_of_cell c = PyInt 1 \<or> py_of_cell c = PyBool True), w1))) w"

definition updated :: "variant \<Rightarrow> env \<Rightarrow> string \<Rightarrow> string \<Rightarrow> world \<Rightarrow> (exn + pyval) \<times> world" where
  "updated var env bank key w =
     serv var env (\<lambda>table w.
       case cur_execute env (Select_data_changed table bank key) w of
         (Inl e, w1) \<Rightarrow> (Inl e, w1)
       | (Inr None, w1) \<Rightarrow> (Inr (PyInt 0), w1)
       | (Inr (Some rows), w1) \<Rightarrow>
           except_IndexError table bank key (Some rows) (PyInt 0)
             (case index00 rows of Inl e \<Rightarrow> Inl e | Inr c \<Rightarrow> Inr (py_of_cell c)) w1) w"

text \<open>\<^verbatim>\<open>id_\<close> of the binary module, exported as \<^verbatim>\<open>id\<close>.\<close>

definition cache_id :: "env \<Rightarrow> string \<Rightarrow> string \<Rightarrow> world \<Rightarrow> (exn + pyval) \<times> world" where
  "cache_id env bank key w =
     serv Pgbytea env (\<lambda>table w.
       case cur_execute env (Select_id table bank key) w of
         (Inl e, w1) \<Rightarrow> (Inl e, w1)
       | (Inr None, w1) \<Rightarrow> (Inr NIL_UUID, w1)
       | (Inr (Some rows), w1) \<Rightarrow>
           except_IndexError table bank key (Some rows) NIL_UUID
             (case index00 rows of Inl e \<Rightarrow> Inl e | Inr c \<Rightarrow> uuid_UUID env (py_of_cell c)) w1) w"

subsection \<open>The two modules behind one name\<close>

definition store :: "variant \<Rightarrow> env \<Rightarrow> string \<Rightarrow> string \<Rightarrow> pyval \<Rightarrow> world \<Rightarrow> (exn + unit) \<times> world" where
  "store var = (case var of Pgbytea \<Rightarrow> store_pgbytea | Pgjsonb_encoded \<Rightarrow> store_pgjsonb)"

definition fetch :: "variant \<Rightarrow> env \<Rightarrow> string \<Rightarrow> string \<Rightarrow> world \<Rightarrow> (exn + pyval) \<times> world" where
  "fetch var = (case var of Pgbytea \<Rightarrow> fetch_pgbytea | Pgjsonb_encoded \<Rightarrow> fetch_pgjsonb)"

text \<open>A caller that stores one entry after the other, whatever each call does.\<close>

fun store_all :: "env \<Rightarrow> (variant \<times> string \<times> string \<times> pyval) list \<Rightarrow> world \<Rightarrow> world" where
  "store_all env [] w = w"
| "store_all env ((var, bank, key, data) # rest) w = store_all env rest (snd (store var env bank key data w))"

text \<open>The options resolve to \<open>cfg\<close> and the server accepts the connection.\<close>

definition connected :: "variant \<Rightarrow> env \<Rightarrow> options \<Rightarrow> bool" where
  "connected var env cfg \<longleftrightarrow>
     fst (get_options var (str_to_int env) (opts env)) = Inr cfg \<and> connect env cfg = None"

text \<open>The primary key of the table: no two rows with the same bank and key.\<close>

definition keys_distinct :: "row list \<Rightarrow> bool" where
  "keys_distinct rows \<longleftrightarrow> distinct (map (\<lambda>r. (col_bank r, col_psql_key r)) rows)"

section \<open>An environment to run the operations in\<close>

text \<open>
  The theorems below hold for every environment. To run the operations on concrete
  inputs the library functions are given by their standard behaviour on the inputs the
  two modules produce: strict UTF-8 decoding, base64 with the standard alphabet on
  canonical text (what \<^verbatim>\<open>b64encode\<close> emits), a fragment of MessagePack (nil, the
  booleans, the small non-negative integers and \<^verbatim>\<open>bin 8\<close>) for \<^verbatim>\<open>salt.payload\<close>, and
  decimal digits for \<^verbatim>\<open>int\<close> of a string.
\<close>

definition utf8_cont :: "8 word \<Rightarrow> bool" where
  "utf8_cont b = (0x80 \<le> b \<and> b \<le> 0xBF)"

fun utf8_valid :: "bytes \<Rightarrow> bool" where
  "utf8_valid [] = True"
| "utf8_valid (b # bs) =
     (if b < 0x80 then utf8_valid bs
      else if 0xC2 \<le> b \<and> b \<le> 0xDF then
        (case bs of c1 # r \<Rightarrow> utf8_cont c1 \<and> utf8_valid r | _ \<Rightarrow> False)
      else if 0xE0 \<le> b \<and> b \<le> 0xEF then
        (case bs of
           c1 # c2 # r \<Rightarrow>
             utf8_cont c1 \<and> utf8_cont c2 \<and> (b = 0xE0 \<longrightarrow> 0xA0 \<le> c1)
               \<and> (b = 0xED \<longrightarrow> c1 \<le> 0x9F) \<and> utf8_valid r
         | _ \<Rightarrow> False)
      else if 0xF0 \<le> b \<and> b \<le> 0xF4 then
        (case bs of
           c1 # c2 # c3 # r \<Rightarrow>
             utf8_cont c1 \<and> utf8_cont c2 \<and> utf8_cont c3 \<and> (b = 0xF0 \<longrightarrow> 0x90 \<le> c1)
               \<and> (b = 0xF4 \<longrightarrow> c1 \<le> 0x8F) \<and> utf8_valid r
         | _ \<Rightarrow> False)
      else False)"

definition utf8_decode :: "bytes \<Rightarrow> string option" where
  "utf8_decode bs = (if utf8_valid bs then Some (map (\<lambda>b. char_of (unat b)) bs) else None)"

definition b64_alphabet :: string where
  "b64_alphabet = ''ABCDEFGHIJKLMNOPQRSTUVWXYZabcdefghijklmnopqrstuvwxyz0123456789+/''"

definition b64_char :: "nat \<Rightarrow> char" where
  "b64_char n = b64_alphabet ! (n mod 64)"

fun b64_encode_nat :: "nat list \<Rightarrow> string" where
  "b64_encode_nat [] = []"
| "b64_encode_nat [a] = [b64_char (a div 4), b64_char (a mod 4 * 16), CHR ''='', CHR ''='']"
| "b64_encode_nat [a, b] =
     [b64_char (a div 4), b64_char (a mod 4 * 16 + b div 16), b64_char (b mod 16 * 4), CHR ''='']"
| "b64_encode_nat (a # b # c # r) =
     [b64_char (a div 4), b64_char (a mod 4 * 16 + b div 16),
      b64_char (b mod 16 * 4 + c div 64), b64_char (c mod 64)] @ b64_encode_nat r"

definition base64_b64encode :: "bytes \<Rightarrow> string" where
  "base64_b64encode bs = b64_encode_nat (map unat bs)"

fun b64_index_in :: "string \<Rightarrow> char \<Rightarrow> nat option" where
  "b64_index_in [] c = None"
| "b64_index_in (x # xs) c = (if x = c then Some 0 else map_option Suc (b64_index_in xs c))"

definition b64_index :: "char \<Rightarrow> nat option" where
  "b64_index c = b64_index_in b64_alphabet c"

fun b64_decode_nat :: "string \<Rightarrow> nat list option" where
  "b64_decode_nat [] = Some []"
| "b64_decode_nat (c1 # c2 # c3 # c4 # r) =
     (case (b64_index c1, b64_index c2) of
        (Some i1, Some i2) \<Rightarrow>
          if c3 = CHR ''='' \<and> c4 = CHR ''='' \<and> r = [] then Some [i1 * 4 + i2 div 16]
          else (case b64_index c3 of
                  None \<Rightarrow> None
                | Some i3 \<Rightarrow>
                    if c4 = CHR ''='' \<and> r = []
                    then Some [i1 * 4 + i2 div 16, i2 mod 16 * 16 + i3 div 4]
                    else (case (b64_index c4, b64_decode_nat r) of
                            (Some i4, Some ns) \<Rightarrow>
                              Some ([i1 * 4 + i2 div 16, i2 mod 16 * 16 + i3 div 4, i3 mod 4 * 64 + i4] @ ns)
                          | _ \<Rightarrow> None))
      | _ \<Rightarrow> None)"
| "b64_decode_nat _ = None"

definition base64_b64decode :: "pyval \<Rightarrow> exn + bytes" where
  "base64_b64decode v =
     (case v of
        PyStr s \<Rightarrow> (case b64_decode_nat s of None \<Rightarrow> Inl BinasciiError | Some ns \<Rightarrow> Inr (map of_nat ns))
      | _ \<Rightarrow> Inl TypeError)"

definition payload_dumps :: "pyval \<Rightarrow> bytes" where
  "payload_dumps v =
     (case v of
        PyNone \<Rightarrow> [0xC0]
      | PyBool b \<Rightarrow> [if b then 0xC3 else 0xC2]
      | PyInt n \<Rightarrow> if 0 \<le> n \<and> n < 128 then [of_int n] else [0xC1]
      | PyBytes bs \<Rightarrow> if length bs < 256 then 0xC4 # of_nat (length bs) # bs else [0xC1]
      | _ \<Rightarrow> [0xC1])"

definition payload_loads :: "cell \<Rightarrow> exn + pyval" where
  "payload_loads c =
     (case c of
        CBytea bs \<Rightarrow>
          (case bs of
             [b] \<Rightarrow>
               if b = 0xC0 then Inr PyNone
               else if b = 0xC2 then Inr (PyBool False)
               else if b = 0xC3 then Inr (PyBool True)
               else if b < 0x80 then Inr (PyInt (uint b))
               else Inl DeserializationError
           | b # n # r \<Rightarrow>
               if b = 0xC4 \<and> unat n = length r then Inr (PyBytes r) else Inl DeserializationError
           | _ \<Rightarrow> Inl DeserializationError)
      | _ \<Rightarrow> Inl TypeError)"

definition json_adapt :: "pyval \<Rightarrow> exn + pyval" where
  "json_adapt v = (case v of PyBytes _ \<Rightarrow> Inl TypeError | PyUUID _ \<Rightarrow> Inl TypeError | _ \<Rightarrow> Inr v)"

definition uuid_of :: "pyval \<Rightarrow> exn + pyval" where
  "uuid_of v = (case v of PyStr s \<Rightarrow> Inr (PyUUID s) | PyNone \<Rightarrow> Inl TypeError | _ \<Rightarrow> Inl AttributeError)"

definition int_of_digits :: "string \<Rightarrow> int option" where
  "int_of_digits s =
     (if s \<noteq> [] \<and> (\<forall>c \<in> set s. (48::nat) \<le> of_char c \<and> of_char c \<le> (57::nat))
      then Some (foldl (\<lambda>n c. 10 * n + (of_char c - 48)) 0 s) else None)"

text \<open>The environment: the given options, a server that accepts every connection and
  runs \<open>postgres\<close> with the given faults, a clock that stands at 0, and one identifier.\<close>

definition run_env :: "(string \<rightharpoonup> optval) \<Rightarrow> (stmt \<Rightarrow> exn option) \<Rightarrow> env" where
  "run_env os fault =
     \<lparr>opts = os, str_to_int = int_of_digits, connect = (\<lambda>_. None),
      execute = postgres fault (\<lambda>_. 0) (\<lambda>_. ''6f1c2a3e-0b7d-4c55-9e21-3a8f5d0c7b19''),
      dumps = payload_dumps, loads = payload_loads, to_str = utf8_decode,
      b64encode = base64_b64encode, b64decode = base64_b64decode,
      to_json = json_adapt, uuid_UUID = uuid_of\<rparr>"

text \<open>The fault oracle that makes one statement raise, and the one that makes none.\<close>

definition fault_on :: "stmt \<Rightarrow> exn \<Rightarrow> stmt \<Rightarrow> exn option" where
  "fault_on q0 e q = (if q = q0 then Some e else None)"

definition fault_upserts :: "exn \<Rightarrow> stmt \<Rightarrow> exn option" where
  "fault_upserts e q = (case q of Upsert _ _ _ _ _ \<Rightarrow> Some e | _ \<Rightarrow> None)"

definition no_fault :: "stmt \<Rightarrow> exn option" where
  "no_fault q = None"

definition empty_world :: world where
  "empty_world = \<lparr>db = \<lparr>committed = (\<lambda>_. []), work = (\<lambda>_. [])\<rparr>, trace = []\<rparr>"

text \<open>A table with two entries of one bank, one of them under the empty key.\<close>

definition bank_world :: world where
  "bank_world =
     \<lparr>db = \<lparr>committed = (\<lambda>_. [])(''salt_cache'' :=
               [\<lparr>col_bank = ''minions'', col_psql_key = [], col_data = CBytea [0xC0],
                 col_id = ''0a4d6c1e-52f7-4b0e-8d3a-91c2e7f60b15'', col_data_changed = 0, col_encoded = False\<rparr>,
                \<lparr>col_bank = ''minions'', col_psql_key = ''web1'', col_data = CBytea [0xC3],
                 col_id = ''c7e1b2a4-3f60-4d9b-a5c8-2e4f8d1b6a03'', col_data_changed = 0, col_encoded = False\<rparr>]),
             work = (\<lambda>_. [])\<rparr>,
      trace = []\<rparr>"

text \<open>A table whose one entry holds bytes that are no MessagePack document, and the
  fault oracle under which every statement but \<^verbatim>\<open>COMMIT\<close> and \<^verbatim>\<open>ROLLBACK\<close> raises.\<close>

definition corrupt_world :: world where
  "corrupt_world =
     \<lparr>db = \<lparr>committed = (\<lambda>_. [])(''salt_cache'' :=
               [\<lparr>col_bank = ''minions'', col_psql_key = ''web1'', col_data = CBytea [0xC1],
                 col_id = ''2b9e4f70-6a1d-4c38-b5e2-7d0a9c3f1e64'', col_data_changed = 0, col_encoded = False\<rparr>]),
             work = (\<lambda>_. [])\<rparr>,
      trace = []\<rparr>"

definition fault_data :: "exn \<Rightarrow> stmt \<Rightarrow> exn option" where
  "fault_data e q = (if q = COMMIT \<or> q = ROLLBACK then None else Some e)"

text \<open>The same environment with the server on the text, a broken text being a syntax
  error; the oracle under which every statement raises; a table of given rows; and the
  keys \<^verbatim>\<open>a'b\<close> and \<^verbatim>\<open>a''b\<close>.\<close>

definition syntax_error :: "stmt \<Rightarrow> pgdb \<Rightarrow> (exn + result) \<times> pgdb" where
  "syntax_error q d = (Inl (Psycopg ProgrammingError), d)"

definition text_env :: "(stmt \<Rightarrow> exn option) \<Rightarrow> env" where
  "text_env fault =
     (run_env Map.empty fault)
       \<lparr>execute := pg_server fault syntax_error (\<lambda>_. 0) (\<lambda>_. ''6f1c2a3e-0b7d-4c55-9e21-3a8f5d0c7b19'')\<rparr>"

definition fault_all :: "exn \<Rightarrow> stmt \<Rightarrow> exn option" where
  "fault_all e q = Some e"

definition entry :: "string \<Rightarrow> string \<Rightarrow> cell \<Rightarrow> row" where
  "entry bank key c =
     \<lparr>col_bank = bank, col_psql_key = key, col_data = c,
      col_id = ''9d3b7a52-14e8-4f06-a2c9-5b8e0f6d1c47'', col_data_changed = 0, col_encoded = False\<rparr>"

definition table_world :: "row list \<Rightarrow> world" where
  "table_world rows =
     \<lparr>db = \<lparr>committed = (\<lambda>_. [])(''salt_cache'' := rows), work = (\<lambda>_. [])\<rparr>, trace = []\<rparr>"

definition key_single :: string where
  "key_single = [CHR ''a'', CHR 0x27, CHR ''b'']"

definition key_double :: string where
  "key_double = [CHR ''a'', CHR 0x27, CHR 0x27, CHR ''b'']"

definition plain_env :: env where
  "plain_env = run_env Map.empty no_fault"

definition default_options :: options where
  "default_options =
     \<lparr>opt_host = OStr ''127.0.0.1'', opt_user = ONone, opt_password = ONone,
      opt_dbname = OStr ''salt_cache'', opt_table = OStr ''salt_cache'', opt_port = 5432\<rparr>"

section \<open>The configuration resolver\<close>

lemma option_name_inj [simp]: "option_name var f = option_name var g \<longleftrightarrow> f = g"
  by (simp add: option_name_def)

lemma fst_pop: "fst (pop d k dflt) = (case d k of None \<Rightarrow> dflt | Some v \<Rightarrow> v)"
  by (simp add: pop_def split: option.splits)

lemma snd_pop: "snd (pop d k dflt) k' = (if k' = k then None else d k')"
  by (simp add: pop_def split: option.splits)

lemma snd_get_options [simp]: "snd (get_options var conv opts0) = opts0"
  by (simp add: get_options_def Let_def split_beta)

text \<open>
  Claim C9, as the specification states it, says that the resolver returns a descriptor
  for every configuration mapping. It does not: the port goes through \<^verbatim>\<open>int(...)\<close>, and
  a mapping that sets the port option to \<^verbatim>\<open>None\<close> makes the resolver raise
  \<^verbatim>\<open>TypeError\<close> instead of returning.
\<close>

theorem get_options_port_counterexample:
  "fst (get_options Pgbytea (\<lambda>_. None) [''cache.pgbytea.port'' \<mapsto> ONone]) = Inl TypeError"
  by (simp add: get_options_def Let_def split_beta fst_pop snd_pop option_name_def py_int_def)

text \<open>
  Claim C9, amended: for every configuration mapping whose port option is absent or holds
  a value that \<^verbatim>\<open>int(...)\<close> accepts, the resolver of either module returns a descriptor
  in which an absent field has its documented default (host 127.0.0.1, port 5432,
  database and table \<^verbatim>\<open>salt_cache\<close>, user and password \<^verbatim>\<open>None\<close>), the legacy options
  \<^verbatim>\<open>passwd\<close> and \<^verbatim>\<open>database\<close> are read when \<^verbatim>\<open>password\<close> and \<^verbatim>\<open>dbname\<close> are absent
  and lose against them otherwise, and the host's configuration is left as it was.
\<close>

theorem get_options_resolves:
  assumes "py_int conv (case opts0 (option_name var ''port'') of None \<Rightarrow> OInt 5432 | Some v \<Rightarrow> v) = Inr p"
  shows "\<exists>d. get_options var conv opts0 = (Inr d, opts0)
     \<and> opt_host d = (case opts0 (option_name var ''host'') of None \<Rightarrow> OStr ''127.0.0.1'' | Some v \<Rightarrow> v)
     \<and> opt_user d = (case opts0 (option_name var ''user'') of None \<Rightarrow> ONone | Some v \<Rightarrow> v)
     \<and> opt_password d = (case opts0 (option_name var ''password'') of Some v \<Rightarrow> v
          | None \<Rightarrow> (case opts0 (option_name var ''passwd'') of None \<Rightarrow> ONone | Some v \<Rightarrow> v))
     \<and> opt_dbname d = (case opts0 (option_name var ''dbname'') of Some v \<Rightarrow> v
          | None \<Rightarrow> (case opts0 (option_name var ''database'') of None \<Rightarrow> OStr ''salt_cache'' | Some v \<Rightarrow> v))
     \<and> opt_table d = (case opts0 (option_name var ''table_name'') of None \<Rightarrow> OStr ''salt_cache'' | Some v \<Rightarrow> v)
     \<and> opt_port d = p
     \<and> (opts0 (option_name var ''port'') = None \<longrightarrow> opt_port d = 5432)"
proof -
  have p5432: "opts0 (option_name var ''port'') = None \<Longrightarrow> p = 5432"
    using assms by (simp add: py_int_def)
  show ?thesis
    using assms p5432
    by (simp add: get_options_def Let_def split_beta fst_pop snd_pop
        DEFAULT_DATABASE_NAME_def DEFAULT_TABLE_NAME_def cong: option.case_cong)
qed

text \<open>The amended claim C9 at a mapping that sets only the two legacy options.\<close>

theorem get_options_resolves_witness:
  "py_int (\<lambda>_. None)
     (case [''cache.pgbytea.passwd'' \<mapsto> OStr ''pw'', ''cache.pgbytea.database'' \<mapsto> OStr ''db'']
        (option_name Pgbytea ''port'') of None \<Rightarrow> OInt 5432 | Some v \<Rightarrow> v) = Inr 5432
   \<and> fst (get_options Pgbytea (\<lambda>_. None)
        [''cache.pgbytea.passwd'' \<mapsto> OStr ''pw'', ''cache.pgbytea.database'' \<mapsto> OStr ''db''])
     = Inr \<lparr>opt_host = OStr ''127.0.0.1'', opt_user = ONone, opt_password = OStr ''pw'',
            opt_dbname = OStr ''db'', opt_table = OStr ''salt_cache'', opt_port = 5432\<rparr>"
proof -
  let ?o = "[''cache.pgbytea.passwd'' \<mapsto> OStr ''pw'', ''cache.pgbytea.database'' \<mapsto> OStr ''db'']"
  have h: "py_int (\<lambda>_. None) (case ?o (option_name Pgbytea ''port'') of None \<Rightarrow> OInt 5432 | Some v \<Rightarrow> v) = Inr 5432"
    by (simp add: option_name_def py_int_def)
  note t = get_options_resolves [where conv = "\<lambda>_. None" and ?opts0.0 = "?o" and var = Pgbytea and p = 5432]
  from t [OF h] obtain d where
    d: "get_options Pgbytea (\<lambda>_. None) ?o = (Inr d, ?o)"
      "opt_host d = (case ?o (option_name Pgbytea ''host'') of None \<Rightarrow> OStr ''127.0.0.1'' | Some v \<Rightarrow> v)"
      "opt_user d = (case ?o (option_name Pgbytea ''user'') of None \<Rightarrow> ONone | Some v \<Rightarrow> v)"
      "opt_password d = (case ?o (option_name Pgbytea ''password'') of Some v \<Rightarrow> v
          | None \<Rightarrow> (case ?o (option_name Pgbytea ''passwd'') of None \<Rightarrow> ONone | Some v \<Rightarrow> v))"
      "opt_dbname d = (case ?o (option_name Pgbytea ''dbname'') of Some v \<Rightarrow> v
          | None \<Rightarrow> (case ?o (option_name Pgbytea ''database'') of None \<Rightarrow> OStr ''salt_cache'' | Some v \<Rightarrow> v))"
      "opt_table d = (case ?o (option_name Pgbytea ''table_name'') of None \<Rightarrow> OStr ''salt_cache'' | Some v \<Rightarrow> v)"
      "opt_port d = 5432"
    by blast
  have "d = \<lparr>opt_host = OStr ''127.0.0.1'', opt_user = ONone, opt_password = OStr ''pw'',
            opt_dbname = OStr ''db'', opt_table = OStr ''salt_cache'', opt_port = 5432\<rparr>"
    using d(2-7) by (cases d) (simp add: option_name_def)
  with d(1) h show ?thesis by simp
qed

section \<open>What the connection scope does\<close>

lemma get_serv_connected:
  assumes "fst (get_options var (str_to_int env) (opts env)) = Inr cfg" and "connect env cfg = None"
  shows "get_serv var env commit body w =
     (case body (py_str (opt_table cfg)) (conn_open cfg w) of
        (Inl e, w1) \<Rightarrow>
          if is_DatabaseError e
          then (case cur_execute env ROLLBACK (log_error (Args e) w1) of
                  (Inl e', w2) \<Rightarrow> (Inl e', conn_close w2)
                | (Inr _, w2) \<Rightarrow> (Inl e, conn_close w2))
          else (Inl e, conn_close w1)
      | (Inr x, w1) \<Rightarrow>
          (case cur_execute env (if commit then COMMIT else ROLLBACK) w1 of
             (Inl e', w2) \<Rightarrow> (Inl e', conn_close w2)
           | (Inr _, w2) \<Rightarrow> (Inr x, conn_close w2)))"
  using assms by (simp add: get_serv_def)

lemma serv_get_serv: "serv var env body w = get_serv var env True body w"
  by (cases var) (auto simp: serv_def get_serv_def split: sum.splits option.splits)

lemma trace_conn_close [simp]: "trace (conn_close w) = trace w @ [Close]"
  by (simp add: conn_close_def)

lemma trace_cur_execute [simp]: "trace (snd (cur_execute env q w)) = trace w @ [Execute q]"
  by (simp add: cur_execute_def split: prod.splits)

lemma fst_cur_execute [simp]: "fst (cur_execute env q w) = fst (execute env q (db w))"
  by (simp add: cur_execute_def split: prod.splits)

lemma log_error_simps [simp]:
  "trace (log_error m w) = trace w @ [LogError m]" "db (log_error m w) = db w"
  by (simp_all add: log_error_def)

lemma get_options_empty: "fst (get_options var int_of_digits Map.empty) = Inr default_options"
  by (simp add: get_options_def Let_def split_beta fst_pop snd_pop py_int_def default_options_def
      DEFAULT_DATABASE_NAME_def DEFAULT_TABLE_NAME_def)

lemma py_str_default_table [simp]: "py_str (opt_table default_options) = ''salt_cache''"
  by (simp add: default_options_def py_str_def)

text \<open>
  Claim C5: once the connection is made, the scope ends every execution by closing the
  connection. When the body completes without raising, the scope issues \<^verbatim>\<open>COMMIT\<close> if
  it was opened with \<^verbatim>\<open>commit=True\<close> and \<^verbatim>\<open>ROLLBACK\<close> otherwise, and hands on the
  body's value. When the body raises a database error, the scope logs it, issues
  \<^verbatim>\<open>ROLLBACK\<close> and raises the error again. Any other exception of the body goes
  through, with the connection closed. (Should the \<^verbatim>\<open>COMMIT\<close> or \<^verbatim>\<open>ROLLBACK\<close> of the scope
  raise in turn, that exception is the one the caller sees; the connection is closed all
  the same.)
\<close>

theorem get_serv_scope:
  assumes "fst (get_options var (str_to_int env) (opts env)) = Inr cfg"
    and "connect env cfg = None"
  shows "let b = body (py_str (opt_table cfg)) (conn_open cfg w);
             g = get_serv var env commit body w;
             final = (if commit then COMMIT else ROLLBACK)
         in last (trace (snd g)) = Close
          \<and> (\<forall>x. fst b = Inr x \<longrightarrow>
                trace (snd g) = trace (snd b) @ [Execute final, Close]
              \<and> fst g = (case fst (execute env final (db (snd b))) of Inl e' \<Rightarrow> Inl e' | Inr _ \<Rightarrow> Inr x))
          \<and> (\<forall>e. fst b = Inl e \<and> is_DatabaseError e \<longrightarrow>
                trace (snd g) = trace (snd b) @ [LogError (Args e), Execute ROLLBACK, Close]
              \<and> fst g = (case fst (execute env ROLLBACK (db (snd b))) of Inl e' \<Rightarrow> Inl e' | Inr _ \<Rightarrow> Inl e))
          \<and> (\<forall>e. fst b = Inl e \<and> \<not> is_DatabaseError e \<longrightarrow>
                trace (snd g) = trace (snd b) @ [Close] \<and> fst g = Inl e)"
proof -
  obtain r wb where b: "body (py_str (opt_table cfg)) (conn_open cfg w) = (r, wb)"
    by (cases "body (py_str (opt_table cfg)) (conn_open cfg w)")
  show ?thesis
  proof (cases r)
    case (Inl e)
    show ?thesis
    proof (cases "is_DatabaseError e")
      case True
      obtain r2 w2 where x: "cur_execute env ROLLBACK (log_error (Args e) wb) = (r2, w2)"
        by (cases "cur_execute env ROLLBACK (log_error (Args e) wb)")
      have t: "trace w2 = trace wb @ [LogError (Args e), Execute ROLLBACK]"
        using trace_cur_execute [of env ROLLBACK "log_error (Args e) wb"] x by simp
      have f: "r2 = fst (execute env ROLLBACK (db wb))"
        using fst_cur_execute [of env ROLLBACK "log_error (Args e) wb"] x by simp
      show ?thesis
        using Inl True b x t f
        by (simp add: get_serv_connected [OF assms] Let_def split: sum.splits)
    next
      case False
      then show ?thesis
        using Inl b by (simp add: get_serv_connected [OF assms] Let_def)
    qed
  next
    case (Inr x)
    let ?final = "if commit then COMMIT else ROLLBACK"
    obtain r2 w2 where x: "cur_execute env ?final wb = (r2, w2)"
      by (cases "cur_execute env ?final wb")
    have t: "trace w2 = trace wb @ [Execute ?final]"
      using trace_cur_execute [of env ?final wb] x by simp
    have f: "r2 = fst (execute env ?final (db wb))"
      using fst_cur_execute [of env ?final wb] x by simp
    show ?thesis
      using Inr b x t f
      by (simp add: get_serv_connected [OF assms] Let_def split: sum.splits)
  qed
qed

text \<open>Claim C5 on a body whose statement the server rejects: the error is logged, the
  transaction rolled back, the connection closed and the error raised again.\<close>

theorem get_serv_scope_witness:
  "fst (get_options Pgbytea
          (str_to_int (run_env Map.empty (fault_on (Select_psql_key ''salt_cache'' ''minions'') (Psycopg ProgrammingError))))
          (opts (run_env Map.empty (fault_on (Select_psql_key ''salt_cache'' ''minions'') (Psycopg ProgrammingError)))))
     = Inr default_options
   \<and> connect (run_env Map.empty (fault_on (Select_psql_key ''salt_cache'' ''minions'') (Psycopg ProgrammingError)))
        default_options = None
   \<and> trace (snd (get_serv Pgbytea
        (run_env Map.empty (fault_on (Select_psql_key ''salt_cache'' ''minions'') (Psycopg ProgrammingError)))
        False
        (\<lambda>table. cur_execute
           (run_env Map.empty (fault_on (Select_psql_key ''salt_cache'' ''minions'') (Psycopg ProgrammingError)))
           (Select_psql_key table ''minions''))
        empty_world))
     = [Connect default_options, Execute (Select_psql_key ''salt_cache'' ''minions''),
        LogError (Args (Psycopg ProgrammingError)), Execute ROLLBACK, Close]
   \<and> fst (get_serv Pgbytea
        (run_env Map.empty (fault_on (Select_psql_key ''salt_cache'' ''minions'') (Psycopg ProgrammingError)))
        False
        (\<lambda>table. cur_execute
           (run_env Map.empty (fault_on (Select_psql_key ''salt_cache'' ''minions'') (Psycopg ProgrammingError)))
           (Select_psql_key table ''minions''))
        empty_world)
     = Inl (Psycopg ProgrammingError)"
proof -
  let ?E = "run_env Map.empty (fault_on (Select_psql_key ''salt_cache'' ''minions'') (Psycopg ProgrammingError))"
  let ?B = "\<lambda>table. cur_execute ?E (Select_psql_key table ''minions'')"
  have h1: "fst (get_options Pgbytea (str_to_int ?E) (opts ?E)) = Inr default_options"
    by (simp add: run_env_def get_options_empty)
  have h2: "connect ?E default_options = None"
    by (simp add: run_env_def)
  have b: "cur_execute ?E (Select_psql_key ''salt_cache'' ''minions'') (conn_open default_options empty_world)
      = (Inl (Psycopg ProgrammingError),
         \<lparr>db = \<lparr>committed = (\<lambda>_. []), work = (\<lambda>_. [])\<rparr>,
          trace = [Connect default_options, Execute (Select_psql_key ''salt_cache'' ''minions'')]\<rparr>)"
    by (simp add: cur_execute_def run_env_def postgres_def conn_open_def empty_world_def fault_on_def)
  have r: "fst (execute ?E ROLLBACK \<lparr>committed = (\<lambda>_. []), work = (\<lambda>_. [])\<rparr>) = Inr None"
    by (simp add: run_env_def postgres_def fault_on_def)
  show ?thesis
    using get_serv_scope [OF h1 h2, where body = ?B and w = empty_world and commit = False] h1 h2
    by (simp add: Let_def b r)
qed

section \<open>Running an operation inside the scope\<close>

lemma serv_connected:
  assumes "connected var env cfg"
  shows "serv var env body w =
     (case body (py_str (opt_table cfg)) (conn_open cfg w) of
        (Inl e, w1) \<Rightarrow>
          if is_DatabaseError e
          then (case cur_execute env ROLLBACK (log_error (Args e) w1) of
                  (Inl e', w2) \<Rightarrow> (Inl e', conn_close w2)
                | (Inr _, w2) \<Rightarrow> (Inl e, conn_close w2))
          else (Inl e, conn_close w1)
      | (Inr x, w1) \<Rightarrow>
          (case cur_execute env COMMIT w1 of
             (Inl e', w2) \<Rightarrow> (Inl e', conn_close w2)
           | (Inr _, w2) \<Rightarrow> (Inr x, conn_close w2)))"
  using assms get_serv_connected [of var env cfg True body w]
  by (simp add: serv_get_serv connected_def)

lemma select_none:
  "\<forall>r \<in> set rows. \<not> P r \<Longrightarrow> concat (map (\<lambda>r. if P r then [f r] else []) rows) = []"
  by (induction rows) auto

lemma filter_none: "\<forall>r \<in> set rows. \<not> P r \<Longrightarrow> filter (\<lambda>r. P r \<and> Q r) rows = []"
  by (induction rows) auto

lemmas run_defs = cur_execute_def postgres_def conn_open_def conn_close_def log_context_def
  except_IndexError_def no_fault_def Let_def

lemma run_env_fields [simp]:
  "opts (run_env os f) = os" "str_to_int (run_env os f) = int_of_digits"
  "connect (run_env os f) = (\<lambda>_. None)"
  "dumps (run_env os f) = payload_dumps" "loads (run_env os f) = payload_loads"
  "to_str (run_env os f) = utf8_decode" "b64encode (run_env os f) = base64_b64encode"
  "b64decode (run_env os f) = base64_b64decode" "to_json (run_env os f) = json_adapt"
  "uuid_UUID (run_env os f) = uuid_of"
  by (simp_all add: run_env_def)

lemma connected_run_env: "connected var (run_env Map.empty f) default_options"
  by (simp add: connected_def get_options_empty)

lemma execute_run_env:
  "execute (run_env os f) = postgres f (\<lambda>_. 0) (\<lambda>_. ''6f1c2a3e-0b7d-4c55-9e21-3a8f5d0c7b19'')"
  by (simp add: run_env_def)

section \<open>Listing a bank\<close>

lemma select_filter:
  "concat (map (\<lambda>r. if P r then [f r] else []) rows) = map f (filter P rows)"
  by (induction rows) auto

lemma list_tuple_eq:
  "list_tuple data =
     (case data of None \<Rightarrow> [] | Some rows \<Rightarrow> map (\<lambda>r. py_of_cell (hd r)) (filter (\<lambda>r. length r = 1) rows))"
proof (cases data)
  case None
  then show ?thesis by (simp add: list_tuple_def)
next
  case (Some rows)
  have "map (\<lambda>r. py_of_cell (r ! 0)) (filter (\<lambda>r. length r = 1) rows)
      = map (\<lambda>r. py_of_cell (hd r)) (filter (\<lambda>r. length r = 1) rows)"
    by (rule map_cong) (auto simp: length_Suc_conv)
  with Some show ?thesis
    by (simp add: list_tuple_def select_filter)
qed

text \<open>
  Claim C10: in both modules \<^verbatim>\<open>list\<close> returns for every result the query hands back,
  whatever its shape: the first element of each row of length exactly 1, in order, rows
  of any other length dropped, and the empty tuple for an empty result or \<^verbatim>\<open>None\<close>. On
  the documented table these are the keys of the bank's rows.
\<close>

theorem list_total:
  assumes "connected var env cfg"
  shows "(\<forall>data d' r.
            execute env (Select_psql_key (py_str (opt_table cfg)) bank) (db (conn_open cfg w)) = (Inr data, d')
            \<and> fst (execute env COMMIT d') = Inr r
          \<longrightarrow> fst (cache_list var env bank w)
              = Inr (case data of
                       None \<Rightarrow> []
                     | Some rows \<Rightarrow> map (\<lambda>r. py_of_cell (hd r)) (filter (\<lambda>r. length r = 1) rows)))
       \<and> (\<forall>now gen_uuid.
            execute env = postgres no_fault now gen_uuid
          \<longrightarrow> fst (cache_list var env bank w)
              = Inr (map (\<lambda>r. PyStr (col_psql_key r))
                      (filter (\<lambda>r. col_bank r = bank) (committed (db w) (py_str (opt_table cfg))))))"
proof (intro conjI allI impI)
  fix data d' r
  assume a: "execute env (Select_psql_key (py_str (opt_table cfg)) bank) (db (conn_open cfg w)) = (Inr data, d')
            \<and> fst (execute env COMMIT d') = Inr r"
  then show "fst (cache_list var env bank w)
              = Inr (case data of
                       None \<Rightarrow> []
                     | Some rows \<Rightarrow> map (\<lambda>r. py_of_cell (hd r)) (filter (\<lambda>r. length r = 1) rows))"
    by (auto simp: cache_list_def serv_connected [OF assms] cur_execute_def list_tuple_eq
        split: prod.splits sum.splits)
next
  fix now gen_uuid
  assume "execute env = postgres no_fault now gen_uuid"
  then show "fst (cache_list var env bank w)
              = Inr (map (\<lambda>r. PyStr (col_psql_key r))
                      (filter (\<lambda>r. col_bank r = bank) (committed (db w) (py_str (opt_table cfg)))))"
    by (simp add: cache_list_def serv_connected [OF assms] run_defs list_tuple_eq select_filter
        matches_def filter_map comp_def)
qed

text \<open>Claim C10 on a server that answers with rows of length 1, 0 and 2.\<close>

theorem list_total_witness:
  "connected Pgjsonb_encoded
     (plain_env\<lparr>execute := (\<lambda>q d. (Inr (Some [[CText ''web1''], [], [CText ''web2'', CInt 7]]), d))\<rparr>)
     default_options
   \<and> fst (cache_list Pgjsonb_encoded
        (plain_env\<lparr>execute := (\<lambda>q d. (Inr (Some [[CText ''web1''], [], [CText ''web2'', CInt 7]]), d))\<rparr>)
        ''minions'' empty_world) = Inr [PyStr ''web1'']"
proof -
  let ?E = "plain_env\<lparr>execute := (\<lambda>q d. (Inr (Some [[CText ''web1''], [], [CText ''web2'', CInt 7]]), d))\<rparr>"
  have h: "connected Pgjsonb_encoded ?E default_options"
    by (simp add: connected_def plain_env_def get_options_empty)
  from list_total [OF h, of "''minions''" empty_world] h show ?thesis
    by simp
qed

section \<open>Statement errors in store\<close>

text \<open>
  Claim C6, as the specification states it, says that \<^verbatim>\<open>store\<close> returns \<^verbatim>\<open>None\<close> and
  raises nothing whenever its statement fails. The handler is inside the scope, and the
  scope then issues \<^verbatim>\<open>COMMIT\<close> outside any \<^verbatim>\<open>try\<close>: on a connection that fails
  every statement, the error of the upsert is caught and logged, and the error of the
  \<^verbatim>\<open>COMMIT\<close> reaches the caller.
\<close>

theorem store_commit_raises_counterexample:
  "fst (store Pgbytea (run_env Map.empty (fault_all (Psycopg OperationalError)))
          ''minions'' ''web1'' PyNone empty_world) = Inl (Psycopg OperationalError)"
  by (simp add: store_def store_pgbytea_def serv_connected [OF connected_run_env] run_defs
      execute_run_env fault_all_def empty_world_def)

text \<open>
  Claim C6, amended: when the statement of \<^verbatim>\<open>store\<close> raises a database error (a
  constraint violation, a data error or any other \<^verbatim>\<open>psycopg2.Error\<close>) and the
  \<^verbatim>\<open>COMMIT\<close> of the scope then executes, \<^verbatim>\<open>store\<close> logs the error with the table,
  bank, key and payload, and returns \<^verbatim>\<open>None\<close>: the error does not reach the caller, and
  the table is as it was.
\<close>

theorem store_swallows:
  assumes "connected var env cfg"
    and "execute env = postgres fault now gen_uuid"
    and "\<forall>c enc. fault (Upsert (py_str (opt_table cfg)) bank key c enc) = Some (Psycopg pe)"
    and "fault COMMIT = None"
    and "var = Pgjsonb_encoded \<longrightarrow> to_json env (snd (encode_payload env v)) = Inr j"
  shows "fst (store var env bank key v w) = Inr ()
       \<and> committed (db (snd (store var env bank key v w))) = committed (db w)
       \<and> (\<exists>c enc. trace (snd (store var env bank key v w)) = trace w @
            [Connect cfg,
             Execute (Upsert (py_str (opt_table cfg)) bank key c enc),
             LogError (Exc (Psycopg pe)),
             LogError (Ctx ''table'' (AStr (py_str (opt_table cfg)))),
             LogError (Ctx ''bank'' (AStr bank)),
             LogError (Ctx ''psql_key'' (AStr key)),
             LogError (Ctx ''data'' (ACell c)),
             Execute COMMIT, Close])"
proof (cases var)
  case Pgbytea
  with assms(1) have c: "connected Pgbytea env cfg" by simp
  show ?thesis
    using assms(2-4) Pgbytea
    by (simp add: store_def store_pgbytea_def serv_connected [OF c] run_defs)
next
  case Pgjsonb_encoded
  with assms(1) have c: "connected Pgjsonb_encoded env cfg" by simp
  obtain enc d1 where ep: "encode_payload env v = (enc, d1)"
    by (cases "encode_payload env v")
  with Pgjsonb_encoded assms(5) have j: "to_json env d1 = Inr j" by simp
  show ?thesis
    using assms(2-4) Pgjsonb_encoded j ep
    by (simp add: store_def store_pgjsonb_def serv_connected [OF c] run_defs)
qed

text \<open>The amended claim C6 in the JSON module, on a server that answers every upsert
  with an integrity error.\<close>

theorem store_swallows_witness:
  "connected Pgjsonb_encoded (run_env Map.empty (fault_upserts (Psycopg IntegrityError))) default_options
   \<and> execute (run_env Map.empty (fault_upserts (Psycopg IntegrityError)))
       = postgres (fault_upserts (Psycopg IntegrityError)) (\<lambda>_. 0) (\<lambda>_. ''6f1c2a3e-0b7d-4c55-9e21-3a8f5d0c7b19'')
   \<and> (\<forall>c enc. fault_upserts (Psycopg IntegrityError)
          (Upsert (py_str (opt_table default_options)) ''minions'' ''web1'' c enc) = Some (Psycopg IntegrityError))
   \<and> fault_upserts (Psycopg IntegrityError) COMMIT = None
   \<and> to_json (run_env Map.empty (fault_upserts (Psycopg IntegrityError)))
        (snd (encode_payload (run_env Map.empty (fault_upserts (Psycopg IntegrityError))) (PyStr ''up''))) = Inr (PyStr ''up'')
   \<and> fst (store Pgjsonb_encoded (run_env Map.empty (fault_upserts (Psycopg IntegrityError)))
        ''minions'' ''web1'' (PyStr ''up'') empty_world) = Inr ()
   \<and> committed (db (snd (store Pgjsonb_encoded (run_env Map.empty (fault_upserts (Psycopg IntegrityError)))
        ''minions'' ''web1'' (PyStr ''up'') empty_world))) = committed (db empty_world)"
proof -
  let ?E = "run_env Map.empty (fault_upserts (Psycopg IntegrityError))"
  have h1: "connected Pgjsonb_encoded ?E default_options"
    by (rule connected_run_env)
  have h2: "execute ?E = postgres (fault_upserts (Psycopg IntegrityError)) (\<lambda>_. 0)
      (\<lambda>_. ''6f1c2a3e-0b7d-4c55-9e21-3a8f5d0c7b19'')"
    by (rule execute_run_env)
  have h3: "\<forall>c enc. fault_upserts (Psycopg IntegrityError)
          (Upsert (py_str (opt_table default_options)) ''minions'' ''web1'' c enc) = Some (Psycopg IntegrityError)"
    by (simp add: fault_upserts_def)
  have h4: "fault_upserts (Psycopg IntegrityError) COMMIT = None"
    by (simp add: fault_upserts_def)
  have h5: "to_json ?E (snd (encode_payload ?E (PyStr ''up''))) = Inr (PyStr ''up'')"
    by (simp add: encode_payload_def json_adapt_def)
  then have h5': "Pgjsonb_encoded = Pgjsonb_encoded \<longrightarrow> to_json ?E (snd (encode_payload ?E (PyStr ''up''))) = Inr (PyStr ''up'')"
    by simp
  from store_swallows [OF h1 h2 h3 h4 h5', of empty_world] h1 h2 h3 h4 h5
  show ?thesis by simp
qed

section \<open>Rows under the primary key\<close>

lemma keys_distinct_match_le1:
  "keys_distinct rows \<Longrightarrow> length (filter (\<lambda>r. col_bank r = b \<and> col_psql_key r = k) rows) \<le> 1"
proof (induction rows)
  case Nil
  then show ?case by simp
next
  case (Cons r rows)
  show ?case
  proof (cases "col_bank r = b \<and> col_psql_key r = k")
    case True
    with Cons.prems have "\<forall>x \<in> set rows. \<not> (col_bank x = b \<and> col_psql_key x = k)"
      by (auto simp: keys_distinct_def image_iff)
    then have "filter (\<lambda>r. col_bank r = b \<and> col_psql_key r = k) rows = []"
      by (simp add: filter_empty_conv)
    with True show ?thesis by simp
  next
    case False
    from Cons.prems have "keys_distinct rows" by (simp add: keys_distinct_def)
    from Cons.IH [OF this] False show ?thesis by auto
  qed
qed

lemma removed_le1:
  assumes "keys_distinct rows"
  shows "length rows - length (filter (\<lambda>r. \<not> (col_bank r = b \<and> col_psql_key r = k)) rows) \<le> 1"
proof -
  have "length (filter (\<lambda>r. col_bank r = b \<and> col_psql_key r = k) rows)
      + length (filter (\<lambda>r. \<not> (col_bank r = b \<and> col_psql_key r = k)) rows) = length rows"
    by (rule sum_length_filter_compl)
  with keys_distinct_match_le1 [OF assms, of b k] show ?thesis by linarith
qed

section \<open>The upsert on the rows of a table\<close>

lemma pg_upsert_hit:
  assumes "\<exists>r \<in> set rows. matches bank (Some key) r"
  shows "map (\<lambda>r. (col_bank r, col_psql_key r, col_id r)) (pg_upsert n u bank key c enc rows)
       = map (\<lambda>r. (col_bank r, col_psql_key r, col_id r)) rows"
    and "\<forall>r \<in> set (pg_upsert n u bank key c enc rows). matches bank (Some key) r \<longrightarrow> col_data r = c"
    and "\<forall>r \<in> set (pg_upsert n u bank key c enc rows). \<not> matches bank (Some key) r \<longrightarrow> r \<in> set rows"
  using assms by (auto simp: pg_upsert_def matches_def)

lemma pg_upsert_hit_encoded:
  assumes "\<exists>r \<in> set rows. matches bank (Some key) r"
  shows "\<forall>r \<in> set (pg_upsert n u bank key c (Some e) rows). matches bank (Some key) r \<longrightarrow> col_encoded r = e"
  using assms by (auto simp: pg_upsert_def matches_def)

lemma pg_upsert_miss:
  assumes "\<forall>r \<in> set rows. \<not> matches bank (Some key) r"
  shows "pg_upsert n u bank key c enc rows
       = rows @ [\<lparr>col_bank = bank, col_psql_key = key, col_data = c, col_id = u, col_data_changed = n,
                  col_encoded = (case enc of None \<Rightarrow> False | Some e \<Rightarrow> e)\<rparr>]"
  using assms by (auto simp: pg_upsert_def)

lemma keys_distinct_upsert:
  assumes "keys_distinct rows"
  shows "keys_distinct (pg_upsert n u bank key c enc rows)"
proof (cases "\<exists>r \<in> set rows. matches bank (Some key) r")
  case True
  have "map (\<lambda>r. (col_bank r, col_psql_key r)) (pg_upsert n u bank key c enc rows)
      = map (\<lambda>r. (col_bank r, col_psql_key r)) rows"
    using True by (auto simp: pg_upsert_def matches_def)
  with assms show ?thesis by (simp add: keys_distinct_def)
next
  case False
  then have m: "\<forall>r \<in> set rows. \<not> matches bank (Some key) r" by simp
  then have "(bank, key) \<notin> set (map (\<lambda>r. (col_bank r, col_psql_key r)) rows)"
    by (auto simp: matches_def)
  with assms show ?thesis
    by (simp add: pg_upsert_miss [OF m] keys_distinct_def)
qed

lemma store_ok:
  assumes "connected var env cfg"
    and "execute env = postgres no_fault now gen_uuid"
    and "var = Pgjsonb_encoded \<longrightarrow> to_json env (snd (encode_payload env v)) = Inr j"
  shows "fst (store var env bank key v w) = Inr ()"
    and "committed (db (snd (store var env bank key v w)))
       = (committed (db w))(py_str (opt_table cfg) :=
           pg_upsert (now ((db w)\<lparr>work := committed (db w)\<rparr>)) (gen_uuid ((db w)\<lparr>work := committed (db w)\<rparr>))
             bank key
             (case var of Pgbytea \<Rightarrow> CBytea (dumps env v) | Pgjsonb_encoded \<Rightarrow> CJsonb j)
             (case var of Pgbytea \<Rightarrow> None | Pgjsonb_encoded \<Rightarrow> Some (fst (encode_payload env v)))
             (committed (db w) (py_str (opt_table cfg))))"
proof -
  obtain enc d1 where ep: "encode_payload env v = (enc, d1)"
    by (cases "encode_payload env v")
  show "fst (store var env bank key v w) = Inr ()"
  proof (cases var)
    case Pgbytea
    with assms(1) have c: "connected Pgbytea env cfg" by simp
    from assms(2) Pgbytea show ?thesis
      by (simp add: store_def store_pgbytea_def serv_connected [OF c] run_defs)
  next
    case Pgjsonb_encoded
    with assms(1) have c: "connected Pgjsonb_encoded env cfg" by simp
    from assms(2,3) Pgjsonb_encoded ep show ?thesis
      by (simp add: store_def store_pgjsonb_def serv_connected [OF c] run_defs)
  qed
  show "committed (db (snd (store var env bank key v w)))
       = (committed (db w))(py_str (opt_table cfg) :=
           pg_upsert (now ((db w)\<lparr>work := committed (db w)\<rparr>)) (gen_uuid ((db w)\<lparr>work := committed (db w)\<rparr>))
             bank key
             (case var of Pgbytea \<Rightarrow> CBytea (dumps env v) | Pgjsonb_encoded \<Rightarrow> CJsonb j)
             (case var of Pgbytea \<Rightarrow> None | Pgjsonb_encoded \<Rightarrow> Some (fst (encode_payload env v)))
             (committed (db w) (py_str (opt_table cfg))))"
  proof (cases var)
    case Pgbytea
    with assms(1) have c: "connected Pgbytea env cfg" by simp
    from assms(2) Pgbytea show ?thesis
      by (simp add: store_def store_pgbytea_def serv_connected [OF c] run_defs)
  next
    case Pgjsonb_encoded
    with assms(1) have c: "connected Pgjsonb_encoded env cfg" by simp
    from assms(2,3) Pgjsonb_encoded ep show ?thesis
      by (simp add: store_def store_pgjsonb_def serv_connected [OF c] run_defs)
  qed
qed

section \<open>fetch after store\<close>

lemma upsert_has_match: "\<exists>r \<in> set (pg_upsert n u bank key c enc rows). matches bank (Some key) r"
proof (cases "\<exists>r \<in> set rows. matches bank (Some key) r")
  case True
  then obtain r where r: "r \<in> set rows" "matches bank (Some key) r" by blast
  let ?f = "\<lambda>r. (col_bank r, col_psql_key r, col_id r)"
  from r(1) have "?f r \<in> set (map ?f rows)" by simp
  then have "?f r \<in> set (map ?f (pg_upsert n u bank key c enc rows))"
    by (simp only: pg_upsert_hit(1) [OF True])
  then obtain r' where "r' \<in> set (pg_upsert n u bank key c enc rows)" "?f r' = ?f r"
    by auto
  with r(2) show ?thesis
    by (auto simp: matches_def)
next
  case False
  then have "\<forall>r \<in> set rows. \<not> matches bank (Some key) r" by simp
  from pg_upsert_miss [OF this] show ?thesis
    by (simp add: matches_def)
qed

lemma upsert_match_data:
  assumes "r \<in> set (pg_upsert n u bank key c enc rows)" and "matches bank (Some key) r"
  shows "col_data r = c"
proof (cases "\<exists>r \<in> set rows. matches bank (Some key) r")
  case True
  from pg_upsert_hit(2) [OF True] assms show ?thesis by blast
next
  case False
  then have m: "\<forall>r \<in> set rows. \<not> matches bank (Some key) r" by simp
  from assms m show ?thesis
    unfolding pg_upsert_miss [OF m] by auto
qed

lemma upsert_match_encoded:
  assumes "r \<in> set (pg_upsert n u bank key c (Some e) rows)" and "matches bank (Some key) r"
  shows "col_encoded r = e"
proof (cases "\<exists>r \<in> set rows. matches bank (Some key) r")
  case True
  from pg_upsert_hit_encoded [OF True] assms show ?thesis by blast
next
  case False
  then have m: "\<forall>r \<in> set rows. \<not> matches bank (Some key) r" by simp
  from assms m show ?thesis
    unfolding pg_upsert_miss [OF m] by auto
qed

lemma upsert_first_match:
  obtains r rest where "filter (matches bank (Some key)) (pg_upsert n u bank key c enc rows) = r # rest"
    and "r \<in> set (pg_upsert n u bank key c enc rows)" and "matches bank (Some key) r"
proof -
  from upsert_has_match [of n u bank key c enc rows]
  have "filter (matches bank (Some key)) (pg_upsert n u bank key c enc rows) \<noteq> []"
    by (simp add: filter_empty_conv)
  then obtain r rest where f: "filter (matches bank (Some key)) (pg_upsert n u bank key c enc rows) = r # rest"
    by (cases "filter (matches bank (Some key)) (pg_upsert n u bank key c enc rows)") auto
  then have "r \<in> set (filter (matches bank (Some key)) (pg_upsert n u bank key c enc rows))"
    by simp
  then have "r \<in> set (pg_upsert n u bank key c enc rows)" "matches bank (Some key) r"
    by simp_all
  with f that show thesis by blast
qed

lemma fetch_pgbytea_rows:
  assumes "connected Pgbytea env cfg" and "execute env = postgres no_fault now gen_uuid"
  shows "fst (fetch_pgbytea env bank key w)
       = (case fetch_try_pgbytea env
                 (map (\<lambda>r. [col_data r]) (filter (matches bank (Some key)) (committed (db w) (py_str (opt_table cfg))))) of
            Inl e \<Rightarrow> if e = IndexError then Inr (PyDict []) else Inl e
          | Inr v \<Rightarrow> Inr v)"
  using assms(2)
  by (simp add: fetch_pgbytea_def serv_connected [OF assms(1)] run_defs select_filter
      split: sum.splits)

lemma fetch_pgjsonb_rows:
  assumes "connected Pgjsonb_encoded env cfg" and "execute env = postgres no_fault now gen_uuid"
  shows "fst (fetch_pgjsonb env bank key w)
       = (case fetch_try_pgjsonb env
                 (map (\<lambda>r. [col_data r, CBool (col_encoded r)])
                    (filter (matches bank (Some key)) (committed (db w) (py_str (opt_table cfg))))) of
            Inl e \<Rightarrow> if e = IndexError then Inr (PyDict []) else Inl e
          | Inr v \<Rightarrow> Inr v)"
  using assms(2)
  by (simp add: fetch_pgjsonb_def serv_connected [OF assms(1)] run_defs select_filter
      split: sum.splits)

lemma fetch_pgjsonb_first:
  assumes "connected Pgjsonb_encoded env cfg" and "execute env = postgres no_fault now gen_uuid"
    and "filter (matches bank (Some key)) (committed (db w) (py_str (opt_table cfg))) = r # rest"
  shows "\<not> col_encoded r \<Longrightarrow> fst (fetch_pgjsonb env bank key w) = Inr (py_of_cell (col_data r))"
    and "col_encoded r \<Longrightarrow> b64decode env (py_of_cell (col_data r)) = Inr bs
           \<Longrightarrow> fst (fetch_pgjsonb env bank key w) = Inr (PyBytes bs)"
  using assms(3)
  by (simp_all add: fetch_pgjsonb_rows [OF assms(1,2)] fetch_try_pgjsonb_def index00_def index01_def)

lemma fetch_pgbytea_first:
  assumes "connected Pgbytea env cfg" and "execute env = postgres no_fault now gen_uuid"
    and "filter (matches bank (Some key)) (committed (db w) (py_str (opt_table cfg))) = r # rest"
    and "loads env (col_data r) = Inr v"
  shows "fst (fetch_pgbytea env bank key w) = Inr v"
  using assms(3,4)
  by (simp add: fetch_pgbytea_rows [OF assms(1,2)] fetch_try_pgbytea_def index00_def)

lemma roundtrip_pgbytea:
  assumes "connected Pgbytea env cfg" and "execute env = postgres no_fault now gen_uuid"
    and "loads env (CBytea (dumps env v)) = Inr v"
  shows "fst (fetch Pgbytea env bank key (snd (store Pgbytea env bank key v w))) = Inr v"
proof -
  let ?w = "snd (store Pgbytea env bank key v w)"
  let ?d0 = "(db w)\<lparr>work := committed (db w)\<rparr>"
  have s: "committed (db ?w) (py_str (opt_table cfg))
      = pg_upsert (now ?d0) (gen_uuid ?d0) bank key (CBytea (dumps env v)) None
          (committed (db w) (py_str (opt_table cfg)))"
    using store_ok(2) [OF assms(1,2), of v undefined bank key w] by simp
  obtain r rest where f: "filter (matches bank (Some key)) (committed (db ?w) (py_str (opt_table cfg))) = r # rest"
    and r: "r \<in> set (committed (db ?w) (py_str (opt_table cfg)))" "matches bank (Some key) r"
    unfolding s by (rule upsert_first_match)
  from r have "col_data r = CBytea (dumps env v)"
    unfolding s by (rule upsert_match_data)
  with assms(3) have "loads env (col_data r) = Inr v" by simp
  from fetch_pgbytea_first [OF assms(1,2) f this] show ?thesis
    by (simp add: fetch_def)
qed

lemma roundtrip_pgjsonb:
  assumes "connected Pgjsonb_encoded env cfg" and "execute env = postgres no_fault now gen_uuid"
    and "to_json env (snd (encode_payload env v)) = Inr j"
  shows "\<not> fst (encode_payload env v)
           \<Longrightarrow> fst (fetch Pgjsonb_encoded env bank key (snd (store Pgjsonb_encoded env bank key v w))) = Inr j"
    and "fst (encode_payload env v) \<Longrightarrow> b64decode env j = Inr bs
           \<Longrightarrow> fst (fetch Pgjsonb_encoded env bank key (snd (store Pgjsonb_encoded env bank key v w)))
               = Inr (PyBytes bs)"
proof -
  let ?w = "snd (store Pgjsonb_encoded env bank key v w)"
  let ?d0 = "(db w)\<lparr>work := committed (db w)\<rparr>"
  have s: "committed (db ?w) (py_str (opt_table cfg))
      = pg_upsert (now ?d0) (gen_uuid ?d0) bank key (CJsonb j) (Some (fst (encode_payload env v)))
          (committed (db w) (py_str (opt_table cfg)))"
    using store_ok(2) [OF assms(1,2), of v j bank key w] assms(3) by simp
  obtain r rest where f: "filter (matches bank (Some key)) (committed (db ?w) (py_str (opt_table cfg))) = r # rest"
    and r: "r \<in> set (committed (db ?w) (py_str (opt_table cfg)))" "matches bank (Some key) r"
    unfolding s by (rule upsert_first_match)
  from r have d: "col_data r = CJsonb j"
    unfolding s by (rule upsert_match_data)
  from r have e: "col_encoded r = fst (encode_payload env v)"
    unfolding s by (rule upsert_match_encoded)
  show "\<not> fst (encode_payload env v) \<Longrightarrow> fst (fetch Pgjsonb_encoded env bank key ?w) = Inr j"
    using fetch_pgjsonb_first(1) [OF assms(1,2) f] d e by (simp add: fetch_def)
  show "fst (encode_payload env v) \<Longrightarrow> b64decode env j = Inr bs
           \<Longrightarrow> fst (fetch Pgjsonb_encoded env bank key ?w) = Inr (PyBytes bs)"
    using fetch_pgjsonb_first(2) [OF assms(1,2) f, of bs] d e by (simp add: fetch_def)
qed






section \<open>Banks and keys in the statement text\<close>

lemma sql_unquote_plain: "sql_plain s \<Longrightarrow> sql_unquote s = Some s"
  by (induction s rule: sql_unquote.induct) (auto simp: sql_plain_def)

lemma sql_unquote_key_double: "sql_unquote key_double = Some key_single"
  by (simp add: key_double_def key_single_def)

lemma sql_plain_words [simp]:
  "sql_plain ''minions''" "sql_plain ''web1''" "sql_plain ''web2''" "sql_plain ''bank1''" "sql_plain ''k1''"
  "sql_plain []"
  by (simp_all add: sql_plain_def)

lemma text_env_fields [simp]:
  "opts (text_env f) = Map.empty" "str_to_int (text_env f) = int_of_digits"
  "connect (text_env f) = (\<lambda>_. None)"
  "dumps (text_env f) = payload_dumps" "loads (text_env f) = payload_loads"
  "to_str (text_env f) = utf8_decode" "b64encode (text_env f) = base64_b64encode"
  "b64decode (text_env f) = base64_b64decode" "to_json (text_env f) = json_adapt"
  "uuid_UUID (text_env f) = uuid_of"
  by (simp_all add: text_env_def)

lemma execute_text_env:
  "execute (text_env f) = pg_server f syntax_error (\<lambda>_. 0) (\<lambda>_. ''6f1c2a3e-0b7d-4c55-9e21-3a8f5d0c7b19'')"
  by (simp add: text_env_def)

lemma connected_text_env: "connected var (text_env f) default_options"
  by (simp add: connected_def get_options_empty)

lemmas text_defs = pg_server_def unquote2_def sql_unquote_plain

section \<open>Defaults on a miss\<close>

text \<open>
  Claim C3, as the specification states it, speaks of every bank and key. The source
  splices both into the statement between quote characters as they are. With the key
  \<^verbatim>\<open>a''b\<close> the server reads the literal \<^verbatim>\<open>a'b\<close>: on a table that holds no row for
  \<^verbatim>\<open>a''b\<close> and one for \<^verbatim>\<open>a'b\<close>, \<^verbatim>\<open>fetch\<close> hands back the payload of that row and
  \<^verbatim>\<open>contains\<close> is true.
\<close>

theorem miss_quoted_key_counterexample:
  "filter (matches ''minions'' (Some key_double))
     (committed (db (table_world [entry ''minions'' key_single (CBytea [0xC3])])) ''salt_cache'') = []
   \<and> fst (fetch Pgbytea (text_env no_fault) ''minions'' key_double
            (table_world [entry ''minions'' key_single (CBytea [0xC3])])) = Inr (PyBool True)
   \<and> fst (contains Pgbytea (text_env no_fault) ''minions'' key_double
            (table_world [entry ''minions'' key_single (CBytea [0xC3])])) = Inr True"
proof -
  have a: "filter (matches ''minions'' (Some key_double))
     (committed (db (table_world [entry ''minions'' key_single (CBytea [0xC3])])) ''salt_cache'') = []"
    by (simp add: table_world_def entry_def matches_def key_double_def key_single_def)
  have b: "fst (fetch Pgbytea (text_env no_fault) ''minions'' key_double
            (table_world [entry ''minions'' key_single (CBytea [0xC3])])) = Inr (PyBool True)"
    by (simp add: fetch_def fetch_pgbytea_def serv_connected [OF connected_text_env] run_defs
        execute_text_env text_defs sql_unquote_key_double table_world_def entry_def matches_def
        fetch_try_pgbytea_def index00_def payload_loads_def)
  have c: "fst (contains Pgbytea (text_env no_fault) ''minions'' key_double
            (table_world [entry ''minions'' key_single (CBytea [0xC3])])) = Inr True"
    by (simp add: contains_def serv_connected [OF connected_text_env] run_defs
        execute_text_env text_defs sql_unquote_key_double table_world_def entry_def matches_def
        index00_def)
  from a b c show ?thesis by simp
qed

text \<open>
  Claim C3, amended: for every bank and key that hold no quote character (and no NUL),
  with the connection made and the statements executing, when the table holds no row for
  the bank and key, \<^verbatim>\<open>fetch\<close> returns the empty dictionary, \<^verbatim>\<open>updated\<close> returns 0,
  \<^verbatim>\<open>contains\<close> returns \<^verbatim>\<open>False\<close> and, in the binary module, \<^verbatim>\<open>id\<close> returns the nil
  UUID. Each of them returns: none raises on the missing row.
\<close>

theorem miss_defaults:
  assumes "connected var env cfg"
    and "execute env = pg_server no_fault broken now gen_uuid"
    and "sql_plain bank" and "sql_plain key"
    and "\<forall>r \<in> set (committed (db w) (py_str (opt_table cfg))). \<not> matches bank (Some key) r"
  shows "fst (fetch var env bank key w) = Inr (PyDict [])
       \<and> fst (updated var env bank key w) = Inr (PyInt 0)
       \<and> fst (contains var env bank key w) = Inr False
       \<and> (var = Pgbytea \<longrightarrow>
            fst (cache_id env bank key w) = Inr (PyUUID ''00000000-0000-0000-0000-000000000000''))"
proof -
  have f: "fst (fetch var env bank key w) = Inr (PyDict [])"
  proof (cases var)
    case Pgbytea
    with assms(1) have c: "connected Pgbytea env cfg" by simp
    show ?thesis
      using assms(2-5) Pgbytea
      by (simp add: fetch_def fetch_pgbytea_def serv_connected [OF c]
          run_defs text_defs select_none fetch_try_pgbytea_def index00_def)
  next
    case Pgjsonb_encoded
    with assms(1) have c: "connected Pgjsonb_encoded env cfg" by simp
    show ?thesis
      using assms(2-5) Pgjsonb_encoded
      by (simp add: fetch_def fetch_pgjsonb_def serv_connected [OF c]
          run_defs text_defs select_none fetch_try_pgjsonb_def index00_def index01_def)
  qed
  have u: "fst (updated var env bank key w) = Inr (PyInt 0)"
    using assms(2-5)
    by (simp add: updated_def serv_connected [OF assms(1)] run_defs text_defs select_none index00_def)
  have c: "fst (contains var env bank key w) = Inr False"
    using assms(2-5)
    by (simp add: contains_def serv_connected [OF assms(1)] run_defs text_defs filter_none index00_def)
  have i: "var = Pgbytea \<Longrightarrow> fst (cache_id env bank key w) = Inr (PyUUID ''00000000-0000-0000-0000-000000000000'')"
  proof -
    assume "var = Pgbytea"
    with assms(1) have c: "connected Pgbytea env cfg" by simp
    show ?thesis
      using assms(2-5)
      by (simp add: cache_id_def serv_connected [OF c] run_defs text_defs select_none index00_def NIL_UUID_def)
  qed
  from f u c i show ?thesis by simp
qed

text \<open>The amended claim C3 on a table that holds an entry for another key of the same
  bank.\<close>

theorem miss_defaults_witness:
  "connected Pgbytea (text_env no_fault) default_options
   \<and> execute (text_env no_fault)
       = pg_server no_fault syntax_error (\<lambda>_. 0) (\<lambda>_. ''6f1c2a3e-0b7d-4c55-9e21-3a8f5d0c7b19'')
   \<and> sql_plain ''minions'' \<and> sql_plain ''web1''
   \<and> filter (matches ''minions'' (Some ''web1''))
        (committed (db (table_world [entry ''minions'' ''web2'' (CBytea [0xC0])]))
           (py_str (opt_table default_options))) = []
   \<and> fst (fetch Pgbytea (text_env no_fault) ''minions'' ''web1''
            (table_world [entry ''minions'' ''web2'' (CBytea [0xC0])])) = Inr (PyDict [])
   \<and> fst (updated Pgbytea (text_env no_fault) ''minions'' ''web1''
            (table_world [entry ''minions'' ''web2'' (CBytea [0xC0])])) = Inr (PyInt 0)
   \<and> fst (contains Pgbytea (text_env no_fault) ''minions'' ''web1''
            (table_world [entry ''minions'' ''web2'' (CBytea [0xC0])])) = Inr False
   \<and> fst (cache_id (text_env no_fault) ''minions'' ''web1''
            (table_world [entry ''minions'' ''web2'' (CBytea [0xC0])]))
        = Inr (PyUUID ''00000000-0000-0000-0000-000000000000'')"
proof -
  let ?w = "table_world [entry ''minions'' ''web2'' (CBytea [0xC0])]"
  have h1: "connected Pgbytea (text_env no_fault) default_options"
    by (rule connected_text_env)
  have h2: "execute (text_env no_fault)
       = pg_server no_fault syntax_error (\<lambda>_. 0) (\<lambda>_. ''6f1c2a3e-0b7d-4c55-9e21-3a8f5d0c7b19'')"
    by (rule execute_text_env)
  have h3: "sql_plain ''minions''" and h4: "sql_plain ''web1''"
    by simp_all
  have h5': "filter (matches ''minions'' (Some ''web1'')) (committed (db ?w) (py_str (opt_table default_options))) = []"
    by (simp add: table_world_def entry_def matches_def)
  then have h5: "\<forall>r \<in> set (committed (db ?w) (py_str (opt_table default_options))).
              \<not> matches ''minions'' (Some ''web1'') r"
    by (simp add: filter_empty_conv)
  from miss_defaults [OF h1 h2 h3 h4 h5] h1 h2 h3 h4 h5' show ?thesis by simp
qed

section \<open>What flush deletes\<close>

text \<open>
  Claim C7, as the specification states it, says that \<^verbatim>\<open>flush(bank, key)\<close> deletes
  exactly the single row of that bank and key, and \<^verbatim>\<open>flush(bank)\<close> no row of another
  bank. With the empty string as key it does not: \<^verbatim>\<open>if key:\<close> takes the empty key for
  no key, and the whole bank goes (below, one row matches the bank and the empty key, and
  both rows of the bank are deleted). Nor does it for a bank or key with quote
  characters, which the source splices unescaped into the statement: flushing the key
  \<^verbatim>\<open>a''b\<close> deletes the row keyed \<^verbatim>\<open>a'b\<close> and leaves the row keyed \<^verbatim>\<open>a''b\<close>, and
  flushing the bank \<^verbatim>\<open>a''b\<close> deletes the row of the bank \<^verbatim>\<open>a'b\<close>.
\<close>

theorem flush_empty_key_counterexample:
  "length (filter (matches ''minions'' (Some [])) (committed (db bank_world) ''salt_cache'')) = 1
   \<and> length (committed (db bank_world) ''salt_cache'') = 2
   \<and> fst (flush Pgbytea plain_env ''minions'' (Some []) bank_world) = Inr True
   \<and> committed (db (snd (flush Pgbytea plain_env ''minions'' (Some []) bank_world))) ''salt_cache'' = []
   \<and> committed (db (snd (flush Pgbytea (text_env no_fault) ''minions'' (Some key_double)
        (table_world [entry ''minions'' key_double (CBytea [0xC0]), entry ''minions'' key_single (CBytea [0xC3])]))))
        ''salt_cache''
      = [entry ''minions'' key_double (CBytea [0xC0])]
   \<and> key_single \<noteq> key_double
   \<and> committed (db (snd (flush Pgbytea (text_env no_fault) key_double None
        (table_world [entry key_single ''web1'' (CBytea [0xC3])])))) ''salt_cache'' = []"
proof -
  have a: "length (filter (matches ''minions'' (Some [])) (committed (db bank_world) ''salt_cache'')) = 1
   \<and> length (committed (db bank_world) ''salt_cache'') = 2
   \<and> fst (flush Pgbytea plain_env ''minions'' (Some []) bank_world) = Inr True
   \<and> committed (db (snd (flush Pgbytea plain_env ''minions'' (Some []) bank_world))) ''salt_cache'' = []"
    by (simp add: flush_def plain_env_def serv_connected [OF connected_run_env] run_defs
        execute_run_env bank_world_def matches_def)
  have b: "committed (db (snd (flush Pgbytea (text_env no_fault) ''minions'' (Some key_double)
        (table_world [entry ''minions'' key_double (CBytea [0xC0]), entry ''minions'' key_single (CBytea [0xC3])]))))
        ''salt_cache''
      = [entry ''minions'' key_double (CBytea [0xC0])]"
    by (simp add: flush_def serv_connected [OF connected_text_env] run_defs execute_text_env
        text_defs sql_unquote_key_double table_world_def entry_def matches_def)
      (simp add: key_double_def key_single_def)
  have c: "key_single \<noteq> key_double"
    by (simp add: key_double_def key_single_def)
  have d: "committed (db (snd (flush Pgbytea (text_env no_fault) key_double None
        (table_world [entry key_single ''web1'' (CBytea [0xC3])])))) ''salt_cache'' = []"
    by (simp add: flush_def serv_connected [OF connected_text_env] run_defs execute_text_env
        text_defs sql_unquote_key_double table_world_def entry_def matches_def)
  from a b c d show ?thesis by simp
qed

text \<open>
  Claim C7, amended: with the connection made and the \<^verbatim>\<open>COMMIT\<close> of the scope
  executing, for every bank and key that hold no quote character (and no NUL):
  \<^verbatim>\<open>flush(bank)\<close> with no key, or with the empty string as key, deletes every row of
  the bank and no row of another bank; \<^verbatim>\<open>flush(bank, key)\<close> with a non-empty key deletes
  the rows of that bank and key, which is at most one row under the primary key, and no
  other row; \<^verbatim>\<open>flush\<close> returns \<^verbatim>\<open>True\<close> when the statement executed, and \<^verbatim>\<open>False\<close>,
  with the table as it was, when it raised a \<^verbatim>\<open>psycopg2.Error\<close>.
\<close>

theorem flush_deletes:
  assumes "connected var env cfg"
    and "execute env = pg_server fault broken now gen_uuid"
    and "fault COMMIT = None"
    and "sql_plain bank"
    and "sql_plain (case key of None \<Rightarrow> [] | Some k \<Rightarrow> k)"
  shows "((key = None \<or> key = Some []) \<and> fault (Delete (py_str (opt_table cfg)) bank None) = None \<longrightarrow>
            fst (flush var env bank key w) = Inr True
          \<and> committed (db (snd (flush var env bank key w)))
              = (committed (db w))(py_str (opt_table cfg) :=
                  filter (\<lambda>r. col_bank r \<noteq> bank) (committed (db w) (py_str (opt_table cfg)))))
       \<and> (\<forall>k. key = Some k \<and> k \<noteq> [] \<and> fault (Delete (py_str (opt_table cfg)) bank (Some k)) = None \<longrightarrow>
            fst (flush var env bank key w) = Inr True
          \<and> committed (db (snd (flush var env bank key w)))
              = (committed (db w))(py_str (opt_table cfg) :=
                  filter (\<lambda>r. \<not> (col_bank r = bank \<and> col_psql_key r = k))
                    (committed (db w) (py_str (opt_table cfg))))
          \<and> (keys_distinct (committed (db w) (py_str (opt_table cfg))) \<longrightarrow>
                length (committed (db w) (py_str (opt_table cfg)))
                  - length (committed (db (snd (flush var env bank key w))) (py_str (opt_table cfg))) \<le> 1))
       \<and> (\<forall>pe. fault (Delete (py_str (opt_table cfg)) bank
                  (case key of None \<Rightarrow> None | Some k \<Rightarrow> if k \<noteq> [] then Some k else None)) = Some (Psycopg pe) \<longrightarrow>
            fst (flush var env bank key w) = Inr False
          \<and> committed (db (snd (flush var env bank key w))) = committed (db w))"
proof (intro conjI allI impI)
  assume a: "(key = None \<or> key = Some []) \<and> fault (Delete (py_str (opt_table cfg)) bank None) = None"
  from a assms(2-5) show "fst (flush var env bank key w) = Inr True"
    by (auto simp: flush_def serv_connected [OF assms(1)] run_defs text_defs)
  from a assms(2-5) show "committed (db (snd (flush var env bank key w)))
              = (committed (db w))(py_str (opt_table cfg) :=
                  filter (\<lambda>r. col_bank r \<noteq> bank) (committed (db w) (py_str (opt_table cfg))))"
    by (auto simp: flush_def serv_connected [OF assms(1)] run_defs text_defs matches_def)
next
  fix k
  assume a: "key = Some k \<and> k \<noteq> [] \<and> fault (Delete (py_str (opt_table cfg)) bank (Some k)) = None"
  from a assms(2-5) show "fst (flush var env bank key w) = Inr True"
    by (simp add: flush_def serv_connected [OF assms(1)] run_defs text_defs)
  from a assms(2-5) show c: "committed (db (snd (flush var env bank key w)))
              = (committed (db w))(py_str (opt_table cfg) :=
                  filter (\<lambda>r. \<not> (col_bank r = bank \<and> col_psql_key r = k))
                    (committed (db w) (py_str (opt_table cfg))))"
    by (simp add: flush_def serv_connected [OF assms(1)] run_defs text_defs matches_def)
  assume "keys_distinct (committed (db w) (py_str (opt_table cfg)))"
  from removed_le1 [OF this, of bank k]
  show "length (committed (db w) (py_str (opt_table cfg)))
      - length (committed (db (snd (flush var env bank key w))) (py_str (opt_table cfg))) \<le> 1"
    by (simp add: c)
next
  fix pe
  assume a: "fault (Delete (py_str (opt_table cfg)) bank
                  (case key of None \<Rightarrow> None | Some k \<Rightarrow> if k \<noteq> [] then Some k else None)) = Some (Psycopg pe)"
  from a assms(2-5) show "fst (flush var env bank key w) = Inr False"
    by (cases key) (auto simp: flush_def serv_connected [OF assms(1)] run_defs text_defs)
  from a assms(2-5) show "committed (db (snd (flush var env bank key w))) = committed (db w)"
    by (cases key) (auto simp: flush_def serv_connected [OF assms(1)] run_defs text_defs)
qed

text \<open>The amended claim C7 on the table of two entries: flushing the key \<^verbatim>\<open>web1\<close>
  leaves the other entry of the bank.\<close>

theorem flush_deletes_witness:
  "connected Pgbytea (text_env no_fault) default_options
   \<and> execute (text_env no_fault)
       = pg_server no_fault syntax_error (\<lambda>_. 0) (\<lambda>_. ''6f1c2a3e-0b7d-4c55-9e21-3a8f5d0c7b19'')
   \<and> no_fault COMMIT = None
   \<and> sql_plain ''minions''
   \<and> sql_plain (case Some ''web1'' of None \<Rightarrow> [] | Some k \<Rightarrow> k)
   \<and> no_fault (Delete (py_str (opt_table default_options)) ''minions'' (Some ''web1'')) = None
   \<and> keys_distinct (committed (db bank_world) (py_str (opt_table default_options)))
   \<and> fst (flush Pgbytea (text_env no_fault) ''minions'' (Some ''web1'') bank_world) = Inr True
   \<and> map col_psql_key (committed (db (snd (flush Pgbytea (text_env no_fault) ''minions'' (Some ''web1'') bank_world)))
        ''salt_cache'') = [[]]"
proof -
  have h1: "connected Pgbytea (text_env no_fault) default_options"
    by (rule connected_text_env)
  have h2: "execute (text_env no_fault)
       = pg_server no_fault syntax_error (\<lambda>_. 0) (\<lambda>_. ''6f1c2a3e-0b7d-4c55-9e21-3a8f5d0c7b19'')"
    by (rule execute_text_env)
  have h3: "no_fault COMMIT = None"
    by (simp add: no_fault_def)
  have p1: "sql_plain ''minions''" by simp
  have p2: "sql_plain (case Some ''web1'' of None \<Rightarrow> [] | Some k \<Rightarrow> k)" by simp
  have h4: "no_fault (Delete (py_str (opt_table default_options)) ''minions'' (Some ''web1'')) = None"
    by (simp add: no_fault_def)
  have h5: "keys_distinct (committed (db bank_world) (py_str (opt_table default_options)))"
    by (simp add: keys_distinct_def bank_world_def)
  from flush_deletes [OF h1 h2 h3 p1 p2, of bank_world] h4
  have "fst (flush Pgbytea (text_env no_fault) ''minions'' (Some ''web1'') bank_world) = Inr True
      \<and> committed (db (snd (flush Pgbytea (text_env no_fault) ''minions'' (Some ''web1'') bank_world)))
          = (committed (db bank_world))(py_str (opt_table default_options) :=
               filter (\<lambda>r. \<not> (col_bank r = ''minions'' \<and> col_psql_key r = ''web1''))
                 (committed (db bank_world) (py_str (opt_table default_options))))"
    by simp
  with h1 h2 h3 h4 h5 p1 p2 show ?thesis
    by (simp add: bank_world_def)
qed

section \<open>store is an upsert\<close>

lemma pk_ok_keys_distinct:
  "pk_ok d \<longleftrightarrow> (\<forall>t. keys_distinct (committed d t)) \<and> (\<forall>t. keys_distinct (work d t))"
  by (simp add: pk_ok_def keys_distinct_def)

lemma keys_distinct_filter: "keys_distinct rows \<Longrightarrow> keys_distinct (filter P rows)"
  by (simp add: keys_distinct_def distinct_map_filter)

lemma postgres_pk:
  assumes "pk_ok d"
  shows "pk_ok (snd (postgres fault now u q d))"
proof (cases "fault q")
  case (Some e)
  with assms show ?thesis by (simp add: postgres_def)
next
  case None
  with assms show ?thesis
    by (cases q) (simp_all add: postgres_def pk_ok_keys_distinct keys_distinct_upsert keys_distinct_filter)
qed

lemma pg_server_pk:
  assumes "\<forall>q d. pk_ok d \<longrightarrow> pk_ok (snd (broken q d))" and "pk_ok d"
  shows "pk_ok (snd (pg_server fault broken now u q d))"
  using assms by (cases "read_stmt q") (simp_all add: pg_server_def postgres_pk)

lemma cur_execute_pk:
  assumes "\<forall>q d. pk_ok d \<longrightarrow> pk_ok (snd (execute env q d))" and "pk_ok (db w)"
  shows "pk_ok (db (snd (cur_execute env q w)))"
  using assms by (simp add: cur_execute_def split: prod.splits) (metis snd_conv)

lemma log_context_db [simp]: "db (log_context e ctx w) = db w"
  by (simp add: log_context_def)

lemma conn_close_committed [simp]: "committed (db (conn_close w)) = committed (db w)"
  by (simp add: conn_close_def)

lemma conn_open_pk:
  "\<forall>t. keys_distinct (committed (db w) t) \<Longrightarrow> pk_ok (db (conn_open cfg w))"
  by (simp add: conn_open_def pk_ok_keys_distinct)

lemma get_serv_pk:
  assumes e: "\<forall>q d. pk_ok d \<longrightarrow> pk_ok (snd (execute env q d))"
    and b: "\<And>t w. pk_ok (db w) \<Longrightarrow> pk_ok (db (snd (body t w)))"
    and i: "\<forall>t. keys_distinct (committed (db w) t)"
  shows "\<forall>t. keys_distinct (committed (db (snd (get_serv var env commit body w))) t)"
proof (cases "fst (get_options var (str_to_int env) (opts env))")
  case (Inl x)
  with i show ?thesis by (simp add: get_serv_def)
next
  case (Inr cfg)
  show ?thesis
  proof (cases "connect env cfg")
    case (Some x)
    with Inr i show ?thesis by (simp add: get_serv_def)
  next
    case None
    let ?t = "py_str (opt_table cfg)"
    obtain r wb where bd: "body ?t (conn_open cfg w) = (r, wb)"
      by (cases "body ?t (conn_open cfg w)")
    from b [OF conn_open_pk [OF i], of ?t cfg] bd have pb: "pk_ok (db wb)" by simp
    have k: "pk_ok (db w') \<Longrightarrow> \<forall>t. keys_distinct (committed (db (conn_close w')) t)" for w'
      by (simp add: pk_ok_keys_distinct)
    show ?thesis
    proof (cases r)
      case (Inl ex)
      show ?thesis
      proof (cases "is_DatabaseError ex")
        case True
        obtain r2 w2 where x: "cur_execute env ROLLBACK (log_error (Args ex) wb) = (r2, w2)"
          by (cases "cur_execute env ROLLBACK (log_error (Args ex) wb)")
        from pb have "pk_ok (db (log_error (Args ex) wb))" by simp
        from cur_execute_pk [OF e this, of ROLLBACK] x have "pk_ok (db w2)" by simp
        from k [OF this] Inl True bd x show ?thesis
          by (simp add: get_serv_connected [OF Inr None] split: sum.splits)
      next
        case False
        from k [OF pb] Inl False bd show ?thesis
          by (simp add: get_serv_connected [OF Inr None])
      qed
    next
      case (Inr v)
      let ?final = "if commit then COMMIT else ROLLBACK"
      obtain r2 w2 where x: "cur_execute env ?final wb = (r2, w2)"
        by (cases "cur_execute env ?final wb")
      from cur_execute_pk [OF e pb, of ?final] x have "pk_ok (db w2)" by simp
      from k [OF this] Inr bd x show ?thesis
        by (simp add: get_serv_connected [OF \<open>fst (get_options var (str_to_int env) (opts env)) = Inr cfg\<close> None]
            split: sum.splits)
    qed
  qed
qed

lemma store_pk:
  assumes e: "\<forall>q d. pk_ok d \<longrightarrow> pk_ok (snd (execute env q d))"
    and i: "\<forall>t. keys_distinct (committed (db w) t)"
  shows "\<forall>t. keys_distinct (committed (db (snd (store var env bank key v w))) t)"
proof (cases var)
  case Pgbytea
  have "pk_ok (db (snd (case cur_execute env q w' of
          (Inr _, w1) \<Rightarrow> (Inr (), w1)
        | (Inl ex, w1) \<Rightarrow> if P ex then (Inr (), log_context ex ctx w1) else (Inl ex, w1))))"
    if "pk_ok (db w')" for q w' P ctx
    using cur_execute_pk [OF e that, of q]
    by (cases "cur_execute env q w'") (auto split: sum.splits)
  then show ?thesis
    using Pgbytea
    by (simp add: store_def store_pgbytea_def serv_get_serv Let_def)
      (rule get_serv_pk [OF e _ i], simp)
next
  case Pgjsonb_encoded
  obtain enc d1 where ep: "encode_payload env v = (enc, d1)"
    by (cases "encode_payload env v")
  have "pk_ok (db (snd (case to_json env d1 of
          Inl ex \<Rightarrow> (Inl ex, w')
        | Inr j \<Rightarrow> (case cur_execute env (q j) w' of
              (Inr _, w1) \<Rightarrow> (Inr (), w1)
            | (Inl ex, w1) \<Rightarrow> if P ex then (Inr (), log_context ex (ctx j) w1) else (Inl ex, w1)))))"
    if "pk_ok (db w')" for q w' P ctx
  proof (cases "to_json env d1")
    case (Inl ex)
    with that show ?thesis by simp
  next
    case (Inr j)
    with cur_execute_pk [OF e that, of "q j"] show ?thesis
      by (cases "cur_execute env (q j) w'") (auto split: sum.splits)
  qed
  then show ?thesis
    using Pgjsonb_encoded ep
    by (simp add: store_def store_pgjsonb_def serv_get_serv)
      (rule get_serv_pk [OF e _ i], simp)
qed

lemma store_all_pk:
  assumes e: "\<forall>q d. pk_ok d \<longrightarrow> pk_ok (snd (execute env q d))"
  shows "\<forall>t. keys_distinct (committed (db w) t) \<Longrightarrow> \<forall>t. keys_distinct (committed (db (store_all env calls w)) t)"
proof (induction calls arbitrary: w)
  case Nil
  then show ?case by simp
next
  case (Cons call calls)
  obtain var bank key v where call: "call = (var, bank, key, v)"
    by (cases call)
  from store_pk [OF e Cons.prems]
  have "\<forall>t. keys_distinct (committed (db (snd (store var env bank key v w))) t)" .
  from Cons.IH [OF this] call show ?case by simp
qed

lemma store_ok_text:
  assumes "connected var env cfg"
    and "execute env = pg_server no_fault broken now gen_uuid"
    and "sql_plain bank" and "sql_plain key"
    and "var = Pgjsonb_encoded \<longrightarrow> to_json env (snd (encode_payload env v)) = Inr j"
  shows "fst (store var env bank key v w) = Inr ()"
    and "committed (db (snd (store var env bank key v w)))
       = (committed (db w))(py_str (opt_table cfg) :=
           pg_upsert (now ((db w)\<lparr>work := committed (db w)\<rparr>)) (gen_uuid ((db w)\<lparr>work := committed (db w)\<rparr>))
             bank key
             (case var of Pgbytea \<Rightarrow> CBytea (dumps env v) | Pgjsonb_encoded \<Rightarrow> CJsonb j)
             (case var of Pgbytea \<Rightarrow> None | Pgjsonb_encoded \<Rightarrow> Some (fst (encode_payload env v)))
             (committed (db w) (py_str (opt_table cfg))))"
proof -
  obtain enc d1 where ep: "encode_payload env v = (enc, d1)"
    by (cases "encode_payload env v")
  show "fst (store var env bank key v w) = Inr ()"
  proof (cases var)
    case Pgbytea
    with assms(1) have c: "connected Pgbytea env cfg" by simp
    from assms(2-4) Pgbytea show ?thesis
      by (simp add: store_def store_pgbytea_def serv_connected [OF c] run_defs text_defs)
  next
    case Pgjsonb_encoded
    with assms(1) have c: "connected Pgjsonb_encoded env cfg" by simp
    from assms(2-5) Pgjsonb_encoded ep show ?thesis
      by (simp add: store_def store_pgjsonb_def serv_connected [OF c] run_defs text_defs)
  qed
  show "committed (db (snd (store var env bank key v w)))
       = (committed (db w))(py_str (opt_table cfg) :=
           pg_upsert (now ((db w)\<lparr>work := committed (db w)\<rparr>)) (gen_uuid ((db w)\<lparr>work := committed (db w)\<rparr>))
             bank key
             (case var of Pgbytea \<Rightarrow> CBytea (dumps env v) | Pgjsonb_encoded \<Rightarrow> CJsonb j)
             (case var of Pgbytea \<Rightarrow> None | Pgjsonb_encoded \<Rightarrow> Some (fst (encode_payload env v)))
             (committed (db w) (py_str (opt_table cfg))))"
  proof (cases var)
    case Pgbytea
    with assms(1) have c: "connected Pgbytea env cfg" by simp
    from assms(2-4) Pgbytea show ?thesis
      by (simp add: store_def store_pgbytea_def serv_connected [OF c] run_defs text_defs)
  next
    case Pgjsonb_encoded
    with assms(1) have c: "connected Pgjsonb_encoded env cfg" by simp
    from assms(2-5) Pgjsonb_encoded ep show ?thesis
      by (simp add: store_def store_pgjsonb_def serv_connected [OF c] run_defs text_defs)
  qed
qed

text \<open>
  Claim C4, as the specification states it, says that a \<^verbatim>\<open>store\<close> to a bank and key
  that has a row updates that row, for every bank and key. The source splices both
  unescaped into the text of the statement. With the key \<^verbatim>\<open>a''b\<close> the server reads the
  literal \<^verbatim>\<open>a'b\<close>: on a table that holds a row for \<^verbatim>\<open>a''b\<close>, \<^verbatim>\<open>store\<close> returns, leaves
  that row as it was and adds a row for \<^verbatim>\<open>a'b\<close>.
\<close>

theorem store_quoted_key_counterexample:
  "map (\<lambda>r. (col_psql_key r, col_data r))
     (filter (matches ''minions'' (Some key_double))
        (committed (db (table_world [entry ''minions'' key_double (CBytea [0xC0])])) ''salt_cache''))
     = [(key_double, CBytea [0xC0])]
   \<and> fst (store Pgbytea (text_env no_fault) ''minions'' key_double (PyBool True)
        (table_world [entry ''minions'' key_double (CBytea [0xC0])])) = Inr ()
   \<and> map (\<lambda>r. (col_psql_key r, col_data r))
        (committed (db (snd (store Pgbytea (text_env no_fault) ''minions'' key_double (PyBool True)
           (table_world [entry ''minions'' key_double (CBytea [0xC0])])))) ''salt_cache'')
     = [(key_double, CBytea [0xC0]), (key_single, CBytea [0xC3])]"
proof -
  have k: "key_double \<noteq> key_single"
    by (simp add: key_double_def key_single_def)
  have a: "map (\<lambda>r. (col_psql_key r, col_data r))
     (filter (matches ''minions'' (Some key_double))
        (committed (db (table_world [entry ''minions'' key_double (CBytea [0xC0])])) ''salt_cache''))
     = [(key_double, CBytea [0xC0])]"
    by (simp add: table_world_def entry_def matches_def)
  have b: "fst (store Pgbytea (text_env no_fault) ''minions'' key_double (PyBool True)
        (table_world [entry ''minions'' key_double (CBytea [0xC0])])) = Inr ()"
    by (simp add: store_def store_pgbytea_def serv_connected [OF connected_text_env] run_defs
        execute_text_env text_defs sql_unquote_key_double)
  have c: "map (\<lambda>r. (col_psql_key r, col_data r))
        (committed (db (snd (store Pgbytea (text_env no_fault) ''minions'' key_double (PyBool True)
           (table_world [entry ''minions'' key_double (CBytea [0xC0])])))) ''salt_cache'')
     = [(key_double, CBytea [0xC0]), (key_single, CBytea [0xC3])]"
    using k
    by (simp add: store_def store_pgbytea_def serv_connected [OF connected_text_env] run_defs
        execute_text_env text_defs sql_unquote_key_double table_world_def entry_def pg_upsert_def
        matches_def payload_dumps_def)
  from a b c show ?thesis by simp
qed

text \<open>
  Claim C4, amended: \<^verbatim>\<open>store\<close> is an upsert. On a server that keeps the primary key
  whatever text it is sent, whatever a sequence of \<^verbatim>\<open>store\<close> calls does, a table that
  had at most one row for each bank and key still has. With the connection made and the
  statements executing, for every bank and key that hold no quote character (and no NUL),
  a \<^verbatim>\<open>store\<close> to a bank and key that has a row leaves the rows, their order and their
  identifiers as they were and puts the new payload (in the JSON module, also the new
  flag) into that row; a \<^verbatim>\<open>store\<close> to a bank and key that has no row adds one row.
\<close>

theorem store_upsert:
  assumes "execute env = pg_server fault broken now gen_uuid"
    and "\<forall>q d. pk_ok d \<longrightarrow> pk_ok (snd (broken q d))"
  shows "((\<forall>t. keys_distinct (committed (db w0) t)) \<longrightarrow>
            (\<forall>t. keys_distinct (committed (db (store_all env calls w0)) t)))
       \<and> (\<forall>cfg j. connected var env cfg \<and> fault = no_fault \<and> sql_plain bank \<and> sql_plain key
            \<and> (var = Pgjsonb_encoded \<longrightarrow> to_json env (snd (encode_payload env v)) = Inr j) \<longrightarrow>
            (let rows = committed (db w) (py_str (opt_table cfg));
                 rows' = committed (db (snd (store var env bank key v w))) (py_str (opt_table cfg));
                 c = (case var of Pgbytea \<Rightarrow> CBytea (dumps env v) | Pgjsonb_encoded \<Rightarrow> CJsonb j)
             in fst (store var env bank key v w) = Inr ()
              \<and> ((\<exists>r \<in> set rows. matches bank (Some key) r) \<longrightarrow>
                    map (\<lambda>r. (col_bank r, col_psql_key r, col_id r)) rows'
                      = map (\<lambda>r. (col_bank r, col_psql_key r, col_id r)) rows
                  \<and> (\<forall>r \<in> set rows'. matches bank (Some key) r \<longrightarrow>
                        col_data r = c
                      \<and> (var = Pgjsonb_encoded \<longrightarrow> col_encoded r = fst (encode_payload env v)))
                  \<and> (\<forall>r \<in> set rows'. \<not> matches bank (Some key) r \<longrightarrow> r \<in> set rows))
              \<and> ((\<forall>r \<in> set rows. \<not> matches bank (Some key) r) \<longrightarrow>
                    (\<exists>r. rows' = rows @ [r] \<and> matches bank (Some key) r \<and> col_data r = c))))"
proof (intro conjI allI impI)
  have e: "\<forall>q d. pk_ok d \<longrightarrow> pk_ok (snd (execute env q d))"
    using assms by (simp add: pg_server_pk)
  assume "\<forall>t. keys_distinct (committed (db w0) t)"
  from store_all_pk [OF e this]
  show "\<And>t. keys_distinct (committed (db (store_all env calls w0)) t)" by simp
next
  fix cfg j
  assume a: "connected var env cfg \<and> fault = no_fault \<and> sql_plain bank \<and> sql_plain key
            \<and> (var = Pgjsonb_encoded \<longrightarrow> to_json env (snd (encode_payload env v)) = Inr j)"
  let ?t = "py_str (opt_table cfg)"
  let ?c = "case var of Pgbytea \<Rightarrow> CBytea (dumps env v) | Pgjsonb_encoded \<Rightarrow> CJsonb j"
  let ?enc = "case var of Pgbytea \<Rightarrow> None | Pgjsonb_encoded \<Rightarrow> Some (fst (encode_payload env v))"
  let ?d0 = "(db w)\<lparr>work := committed (db w)\<rparr>"
  from a assms have e: "execute env = pg_server no_fault broken now gen_uuid" by simp
  from a have c: "connected var env cfg" and pb: "sql_plain bank" and pk: "sql_plain key"
    and j: "var = Pgjsonb_encoded \<longrightarrow> to_json env (snd (encode_payload env v)) = Inr j" by simp_all
  have r: "committed (db (snd (store var env bank key v w))) ?t
      = pg_upsert (now ?d0) (gen_uuid ?d0) bank key ?c ?enc (committed (db w) ?t)"
    by (simp add: store_ok_text(2) [OF c e pb pk j])
  have ok: "fst (store var env bank key v w) = Inr ()"
    by (rule store_ok_text(1) [OF c e pb pk j])
  show "let rows = committed (db w) ?t;
            rows' = committed (db (snd (store var env bank key v w))) ?t;
            c = ?c
        in fst (store var env bank key v w) = Inr ()
         \<and> ((\<exists>r \<in> set rows. matches bank (Some key) r) \<longrightarrow>
                    map (\<lambda>r. (col_bank r, col_psql_key r, col_id r)) rows'
                      = map (\<lambda>r. (col_bank r, col_psql_key r, col_id r)) rows
                  \<and> (\<forall>r \<in> set rows'. matches bank (Some key) r \<longrightarrow>
                        col_data r = c
                      \<and> (var = Pgjsonb_encoded \<longrightarrow> col_encoded r = fst (encode_payload env v)))
                  \<and> (\<forall>r \<in> set rows'. \<not> matches bank (Some key) r \<longrightarrow> r \<in> set rows))
              \<and> ((\<forall>r \<in> set rows. \<not> matches bank (Some key) r) \<longrightarrow>
                    (\<exists>r. rows' = rows @ [r] \<and> matches bank (Some key) r \<and> col_data r = c))"
    unfolding Let_def r
  proof (intro conjI impI)
    show "fst (store var env bank key v w) = Inr ()" by (rule ok)
  next
    assume h: "\<exists>r \<in> set (committed (db w) ?t). matches bank (Some key) r"
    show "map (\<lambda>r. (col_bank r, col_psql_key r, col_id r))
            (pg_upsert (now ?d0) (gen_uuid ?d0) bank key ?c ?enc (committed (db w) ?t))
        = map (\<lambda>r. (col_bank r, col_psql_key r, col_id r)) (committed (db w) ?t)"
      by (rule pg_upsert_hit(1) [OF h])
    show "\<forall>r \<in> set (pg_upsert (now ?d0) (gen_uuid ?d0) bank key ?c ?enc (committed (db w) ?t)).
            matches bank (Some key) r \<longrightarrow>
              col_data r = ?c \<and> (var = Pgjsonb_encoded \<longrightarrow> col_encoded r = fst (encode_payload env v))"
      using pg_upsert_hit(2) [OF h, of "now ?d0" "gen_uuid ?d0" ?c ?enc]
        pg_upsert_hit_encoded [OF h, of "now ?d0" "gen_uuid ?d0" ?c "fst (encode_payload env v)"]
      by (cases var) simp_all
    show "\<forall>r \<in> set (pg_upsert (now ?d0) (gen_uuid ?d0) bank key ?c ?enc (committed (db w) ?t)).
            \<not> matches bank (Some key) r \<longrightarrow> r \<in> set (committed (db w) ?t)"
      by (rule pg_upsert_hit(3) [OF h])
  next
    assume h: "\<forall>r \<in> set (committed (db w) ?t). \<not> matches bank (Some key) r"
    show "\<exists>r. pg_upsert (now ?d0) (gen_uuid ?d0) bank key ?c ?enc (committed (db w) ?t)
              = committed (db w) ?t @ [r] \<and> matches bank (Some key) r \<and> col_data r = ?c"
      by (simp add: pg_upsert_miss [OF h] matches_def)
  qed
qed

text \<open>The amended claim C4 on the table of two entries: two further calls, one of them
  with quotes in its key, keep the keys distinct, and a \<^verbatim>\<open>store\<close> to the key
  \<^verbatim>\<open>web1\<close> returns and replaces the payload of its row.\<close>

theorem store_upsert_witness:
  "execute (text_env no_fault)
       = pg_server no_fault syntax_error (\<lambda>_. 0) (\<lambda>_. ''6f1c2a3e-0b7d-4c55-9e21-3a8f5d0c7b19'')
   \<and> (\<forall>q d. pk_ok (snd (syntax_error q d)) = pk_ok d)
   \<and> (\<forall>t. keys_distinct (committed (db bank_world) t))
   \<and> connected Pgbytea (text_env no_fault) default_options
   \<and> sql_plain ''minions'' \<and> sql_plain ''web1''
   \<and> (\<exists>r \<in> set (committed (db bank_world) (py_str (opt_table default_options))).
         matches ''minions'' (Some ''web1'') r)
   \<and> (\<forall>t. keys_distinct (committed (db (store_all (text_env no_fault)
          [(Pgbytea, ''minions'', ''web1'', PyNone), (Pgbytea, ''minions'', key_double, PyBool True)]
          bank_world)) t))
   \<and> fst (store Pgbytea (text_env no_fault) ''minions'' ''web1'' PyNone bank_world) = Inr ()
   \<and> map (\<lambda>r. (col_bank r, col_psql_key r, col_id r))
        (committed (db (snd (store Pgbytea (text_env no_fault) ''minions'' ''web1'' PyNone bank_world)))
          (py_str (opt_table default_options)))
     = map (\<lambda>r. (col_bank r, col_psql_key r, col_id r))
        (committed (db bank_world) (py_str (opt_table default_options)))
   \<and> map col_data (filter (matches ''minions'' (Some ''web1''))
        (committed (db (snd (store Pgbytea (text_env no_fault) ''minions'' ''web1'' PyNone bank_world)))
          (py_str (opt_table default_options))))
     = [CBytea (dumps (text_env no_fault) PyNone)]"
proof -
  let ?E = "text_env no_fault"
  have h1: "execute ?E = pg_server no_fault syntax_error (\<lambda>_. 0) (\<lambda>_. ''6f1c2a3e-0b7d-4c55-9e21-3a8f5d0c7b19'')"
    by (rule execute_text_env)
  have hb': "\<forall>q d. pk_ok (snd (syntax_error q d)) = pk_ok d"
    by (simp add: syntax_error_def)
  then have hb: "\<forall>q d. pk_ok d \<longrightarrow> pk_ok (snd (syntax_error q d))"
    by simp
  have h2: "\<forall>t. keys_distinct (committed (db bank_world) t)"
    by (simp add: keys_distinct_def bank_world_def)
  have h3: "connected Pgbytea ?E default_options"
    by (rule connected_text_env)
  have p1: "sql_plain ''minions''" and p2: "sql_plain ''web1''" by simp_all
  have h4: "\<exists>r \<in> set (committed (db bank_world) (py_str (opt_table default_options))).
         matches ''minions'' (Some ''web1'') r"
    by (simp add: bank_world_def matches_def)
  note t = store_upsert [OF h1 hb, where ?w0.0 = bank_world and w = bank_world and var = Pgbytea
      and v = PyNone and bank = "''minions''" and key = "''web1''"
      and calls = "[(Pgbytea, ''minions'', ''web1'', PyNone), (Pgbytea, ''minions'', key_double, PyBool True)]"]
  from t h2 have a: "\<forall>t. keys_distinct (committed (db (store_all ?E
          [(Pgbytea, ''minions'', ''web1'', PyNone), (Pgbytea, ''minions'', key_double, PyBool True)]
          bank_world)) t)"
    by blast
  from t have "connected Pgbytea ?E default_options \<and> no_fault = no_fault
       \<and> sql_plain ''minions'' \<and> sql_plain ''web1''
       \<and> (Pgbytea = Pgjsonb_encoded \<longrightarrow> to_json ?E (snd (encode_payload ?E PyNone)) = Inr PyNone) \<longrightarrow>
       (let rows = committed (db bank_world) (py_str (opt_table default_options));
            rows' = committed (db (snd (store Pgbytea ?E ''minions'' ''web1'' PyNone bank_world)))
                      (py_str (opt_table default_options));
            c = (case Pgbytea of Pgbytea \<Rightarrow> CBytea (dumps ?E PyNone) | Pgjsonb_encoded \<Rightarrow> CJsonb PyNone)
        in fst (store Pgbytea ?E ''minions'' ''web1'' PyNone bank_world) = Inr ()
         \<and> ((\<exists>r \<in> set rows. matches ''minions'' (Some ''web1'') r) \<longrightarrow>
               map (\<lambda>r. (col_bank r, col_psql_key r, col_id r)) rows'
                 = map (\<lambda>r. (col_bank r, col_psql_key r, col_id r)) rows
             \<and> (\<forall>r \<in> set rows'. matches ''minions'' (Some ''web1'') r \<longrightarrow>
                   col_data r = c
                 \<and> (Pgbytea = Pgjsonb_encoded \<longrightarrow> col_encoded r = fst (encode_payload ?E PyNone)))
             \<and> (\<forall>r \<in> set rows'. \<not> matches ''minions'' (Some ''web1'') r \<longrightarrow> r \<in> set rows))
         \<and> ((\<forall>r \<in> set rows. \<not> matches ''minions'' (Some ''web1'') r) \<longrightarrow>
               (\<exists>r. rows' = rows @ [r] \<and> matches ''minions'' (Some ''web1'') r \<and> col_data r = c)))"
    by blast
  with h3 h4 p1 p2 have b: "fst (store Pgbytea ?E ''minions'' ''web1'' PyNone bank_world) = Inr ()
   \<and> map (\<lambda>r. (col_bank r, col_psql_key r, col_id r))
        (committed (db (snd (store Pgbytea ?E ''minions'' ''web1'' PyNone bank_world)))
          (py_str (opt_table default_options)))
     = map (\<lambda>r. (col_bank r, col_psql_key r, col_id r))
        (committed (db bank_world) (py_str (opt_table default_options)))"
    by (simp add: Let_def)
  have "Pgbytea = Pgjsonb_encoded \<longrightarrow> to_json ?E (snd (encode_payload ?E PyNone)) = Inr PyNone"
    by simp
  from store_ok_text(2) [OF h3 h1 p1 p2 this, of bank_world]
  have c: "map col_data (filter (matches ''minions'' (Some ''web1''))
        (committed (db (snd (store Pgbytea ?E ''minions'' ''web1'' PyNone bank_world)))
          (py_str (opt_table default_options))))
     = [CBytea (dumps ?E PyNone)]"
    by (simp add: bank_world_def pg_upsert_def matches_def)
  from h1 hb' h2 h3 h4 p1 p2 a b c show ?thesis by blast
qed

section \<open>The round trip\<close>

lemma char_of_abc: "char_of (97::nat) = CHR ''a''" "char_of (98::nat) = CHR ''b''" "char_of (99::nat) = CHR ''c''"
  by code_simp+

lemma utf8_decode_abc: "utf8_decode [0x61, 0x62, 0x63] = Some ''abc''"
  by (simp add: utf8_decode_def char_of_abc)

text \<open>
  Claim C1, as the specification states it, says that \<^verbatim>\<open>fetch\<close> after \<^verbatim>\<open>store\<close> returns
  a value equal to the stored one in both modules. In the JSON module it does not for
  bytes that are valid UTF-8: \<^verbatim>\<open>store\<close> decodes them to text, no flag records that they
  were bytes, and \<^verbatim>\<open>fetch\<close> returns the \<^verbatim>\<open>str\<close>, which Python does not hold equal to
  the bytes.
\<close>

theorem roundtrip_utf8_bytes_counterexample:
  "fst (fetch Pgjsonb_encoded plain_env ''bank1'' ''k1''
     (snd (store Pgjsonb_encoded plain_env ''bank1'' ''k1'' (PyBytes [0x61, 0x62, 0x63]) empty_world)))
     = Inr (PyStr ''abc'')
   \<and> PyStr ''abc'' \<noteq> PyBytes [0x61, 0x62, 0x63]"
proof -
  have h1: "connected Pgjsonb_encoded plain_env default_options"
    by (simp add: plain_env_def connected_run_env)
  have h2: "execute plain_env = postgres no_fault (\<lambda>_. 0) (\<lambda>_. ''6f1c2a3e-0b7d-4c55-9e21-3a8f5d0c7b19'')"
    by (simp add: plain_env_def execute_run_env)
  have e: "encode_payload plain_env (PyBytes [0x61, 0x62, 0x63]) = (False, PyStr ''abc'')"
    by (simp add: encode_payload_def plain_env_def utf8_decode_abc)
  have j: "to_json plain_env (snd (encode_payload plain_env (PyBytes [0x61, 0x62, 0x63]))) = Inr (PyStr ''abc'')"
    by (simp add: e) (simp add: plain_env_def json_adapt_def)
  from roundtrip_pgjsonb(1) [OF h1 h2 j] e show ?thesis by simp
qed

lemma fetch_pgbytea_rows_text:
  assumes "connected Pgbytea env cfg" and "execute env = pg_server no_fault broken now gen_uuid"
    and "sql_plain bank" and "sql_plain key"
  shows "fst (fetch_pgbytea env bank key w)
       = (case fetch_try_pgbytea env
                 (map (\<lambda>r. [col_data r]) (filter (matches bank (Some key)) (committed (db w) (py_str (opt_table cfg))))) of
            Inl e \<Rightarrow> if e = IndexError then Inr (PyDict []) else Inl e
          | Inr v \<Rightarrow> Inr v)"
  using assms(2-4)
  by (simp add: fetch_pgbytea_def serv_connected [OF assms(1)] run_defs text_defs select_filter
      split: sum.splits)

lemma fetch_pgjsonb_rows_text:
  assumes "connected Pgjsonb_encoded env cfg" and "execute env = pg_server no_fault broken now gen_uuid"
    and "sql_plain bank" and "sql_plain key"
  shows "fst (fetch_pgjsonb env bank key w)
       = (case fetch_try_pgjsonb env
                 (map (\<lambda>r. [col_data r, CBool (col_encoded r)])
                    (filter (matches bank (Some key)) (committed (db w) (py_str (opt_table cfg))))) of
            Inl e \<Rightarrow> if e = IndexError then Inr (PyDict []) else Inl e
          | Inr v \<Rightarrow> Inr v)"
  using assms(2-4)
  by (simp add: fetch_pgjsonb_def serv_connected [OF assms(1)] run_defs text_defs select_filter
      split: sum.splits)

lemma roundtrip_pgbytea_text:
  assumes "connected Pgbytea env cfg" and "execute env = pg_server no_fault broken now gen_uuid"
    and "sql_plain bank" and "sql_plain key"
    and "loads env (CBytea (dumps env v)) = Inr v"
  shows "fst (fetch Pgbytea env bank key (snd (store Pgbytea env bank key v w))) = Inr v"
proof -
  let ?w = "snd (store Pgbytea env bank key v w)"
  let ?d0 = "(db w)\<lparr>work := committed (db w)\<rparr>"
  have s: "committed (db ?w) (py_str (opt_table cfg))
      = pg_upsert (now ?d0) (gen_uuid ?d0) bank key (CBytea (dumps env v)) None
          (committed (db w) (py_str (opt_table cfg)))"
    using store_ok_text(2) [OF assms(1-4), of v undefined w] by simp
  obtain r rest where f: "filter (matches bank (Some key)) (committed (db ?w) (py_str (opt_table cfg))) = r # rest"
    and r: "r \<in> set (committed (db ?w) (py_str (opt_table cfg)))" "matches bank (Some key) r"
    unfolding s by (rule upsert_first_match)
  from r have "col_data r = CBytea (dumps env v)"
    unfolding s by (rule upsert_match_data)
  with assms(5) have "loads env (col_data r) = Inr v" by simp
  with f show ?thesis
    by (simp add: fetch_def fetch_pgbytea_rows_text [OF assms(1-4)] fetch_try_pgbytea_def index00_def)
qed

lemma roundtrip_pgjsonb_text:
  assumes "connected Pgjsonb_encoded env cfg" and "execute env = pg_server no_fault broken now gen_uuid"
    and "sql_plain bank" and "sql_plain key"
    and "to_json env (snd (encode_payload env v)) = Inr j"
  shows "\<not> fst (encode_payload env v)
           \<Longrightarrow> fst (fetch Pgjsonb_encoded env bank key (snd (store Pgjsonb_encoded env bank key v w))) = Inr j"
    and "fst (encode_payload env v) \<Longrightarrow> b64decode env j = Inr bs
           \<Longrightarrow> fst (fetch Pgjsonb_encoded env bank key (snd (store Pgjsonb_encoded env bank key v w)))
               = Inr (PyBytes bs)"
proof -
  let ?w = "snd (store Pgjsonb_encoded env bank key v w)"
  let ?d0 = "(db w)\<lparr>work := committed (db w)\<rparr>"
  have s: "committed (db ?w) (py_str (opt_table cfg))
      = pg_upsert (now ?d0) (gen_uuid ?d0) bank key (CJsonb j) (Some (fst (encode_payload env v)))
          (committed (db w) (py_str (opt_table cfg)))"
    using store_ok_text(2) [OF assms(1-4), of v j w] assms(5) by simp
  obtain r rest where f: "filter (matches bank (Some key)) (committed (db ?w) (py_str (opt_table cfg))) = r # rest"
    and r: "r \<in> set (committed (db ?w) (py_str (opt_table cfg)))" "matches bank (Some key) r"
    unfolding s by (rule upsert_first_match)
  from r have d: "col_data r = CJsonb j"
    unfolding s by (rule upsert_match_data)
  from r have e: "col_encoded r = fst (encode_payload env v)"
    unfolding s by (rule upsert_match_encoded)
  show "\<not> fst (encode_payload env v) \<Longrightarrow> fst (fetch Pgjsonb_encoded env bank key ?w) = Inr j"
    using f d e
    by (simp add: fetch_def fetch_pgjsonb_rows_text [OF assms(1-4)] fetch_try_pgjsonb_def
        index00_def index01_def)
  show "fst (encode_payload env v) \<Longrightarrow> b64decode env j = Inr bs
           \<Longrightarrow> fst (fetch Pgjsonb_encoded env bank key ?w) = Inr (PyBytes bs)"
    using f d e
    by (simp add: fetch_def fetch_pgjsonb_rows_text [OF assms(1-4)] fetch_try_pgjsonb_def
        index00_def index01_def)
qed

text \<open>
  Claim C1, amended: with the connection made and the statements executing, for every
  bank and key that hold no quote character (and no NUL), \<^verbatim>\<open>fetch\<close> after \<^verbatim>\<open>store\<close> of a
  value v returns v in the binary module whenever the codec reads back what it wrote for
  v; in the JSON module it returns v when v is a bytes value that is not valid UTF-8
  (stored as base64) and when v is not a bytes value and the JSON column reads it back
  unchanged; for a bytes value that is valid UTF-8 it returns the decoded text.
\<close>

theorem fetch_after_store:
  assumes "connected var env cfg" and "execute env = pg_server no_fault broken now gen_uuid"
    and "sql_plain bank" and "sql_plain key"
  shows "(var = Pgbytea \<and> loads env (CBytea (dumps env v)) = Inr v \<longrightarrow>
            fst (fetch var env bank key (snd (store var env bank key v w))) = Inr v)
       \<and> (\<forall>bs. var = Pgjsonb_encoded \<and> v = PyBytes bs \<and> to_str env bs = None
              \<and> to_json env (PyStr (b64encode env bs)) = Inr (PyStr (b64encode env bs))
              \<and> b64decode env (PyStr (b64encode env bs)) = Inr bs \<longrightarrow>
            fst (fetch var env bank key (snd (store var env bank key v w))) = Inr v)
       \<and> (\<forall>bs s. var = Pgjsonb_encoded \<and> v = PyBytes bs \<and> to_str env bs = Some s
              \<and> to_json env (PyStr s) = Inr (PyStr s) \<longrightarrow>
            fst (fetch var env bank key (snd (store var env bank key v w))) = Inr (PyStr s))
       \<and> (var = Pgjsonb_encoded \<and> (\<forall>bs. v \<noteq> PyBytes bs) \<and> to_json env v = Inr v \<longrightarrow>
            fst (fetch var env bank key (snd (store var env bank key v w))) = Inr v)"
proof (intro conjI allI impI)
  assume a: "var = Pgbytea \<and> loads env (CBytea (dumps env v)) = Inr v"
  with assms(1) have c: "connected Pgbytea env cfg" by simp
  from roundtrip_pgbytea_text [OF c assms(2-4), of v w] a
  show "fst (fetch var env bank key (snd (store var env bank key v w))) = Inr v" by simp
next
  fix bs
  assume a: "var = Pgjsonb_encoded \<and> v = PyBytes bs \<and> to_str env bs = None
              \<and> to_json env (PyStr (b64encode env bs)) = Inr (PyStr (b64encode env bs))
              \<and> b64decode env (PyStr (b64encode env bs)) = Inr bs"
  with assms(1) have c: "connected Pgjsonb_encoded env cfg" by simp
  from a have e: "encode_payload env v = (True, PyStr (b64encode env bs))"
    by (simp add: encode_payload_def)
  from a e have j: "to_json env (snd (encode_payload env v)) = Inr (PyStr (b64encode env bs))"
    by simp
  from roundtrip_pgjsonb_text(2) [OF c assms(2-4) j, of bs w] a e
  show "fst (fetch var env bank key (snd (store var env bank key v w))) = Inr v" by simp
next
  fix bs s
  assume a: "var = Pgjsonb_encoded \<and> v = PyBytes bs \<and> to_str env bs = Some s
              \<and> to_json env (PyStr s) = Inr (PyStr s)"
  with assms(1) have c: "connected Pgjsonb_encoded env cfg" by simp
  from a have e: "encode_payload env v = (False, PyStr s)"
    by (simp add: encode_payload_def)
  from a e have j: "to_json env (snd (encode_payload env v)) = Inr (PyStr s)"
    by simp
  from roundtrip_pgjsonb_text(1) [OF c assms(2-4) j, of w] a e
  show "fst (fetch var env bank key (snd (store var env bank key v w))) = Inr (PyStr s)" by simp
next
  assume a: "var = Pgjsonb_encoded \<and> (\<forall>bs. v \<noteq> PyBytes bs) \<and> to_json env v = Inr v"
  with assms(1) have c: "connected Pgjsonb_encoded env cfg" by simp
  from a have e: "encode_payload env v = (False, v)"
    by (cases v) (simp_all add: encode_payload_def)
  from a e have j: "to_json env (snd (encode_payload env v)) = Inr v"
    by simp
  from roundtrip_pgjsonb_text(1) [OF c assms(2-4) j, of w] a e
  show "fst (fetch var env bank key (snd (store var env bank key v w))) = Inr v" by simp
qed

text \<open>The amended claim C1 in the binary module, on three bytes that are valid UTF-8: they
  come back as the same bytes.\<close>

theorem fetch_after_store_witness:
  "connected Pgbytea (text_env no_fault) default_options
   \<and> execute (text_env no_fault)
       = pg_server no_fault syntax_error (\<lambda>_. 0) (\<lambda>_. ''6f1c2a3e-0b7d-4c55-9e21-3a8f5d0c7b19'')
   \<and> sql_plain ''bank1'' \<and> sql_plain ''k1''
   \<and> loads (text_env no_fault) (CBytea (dumps (text_env no_fault) (PyBytes [0x61, 0x62, 0x63])))
       = Inr (PyBytes [0x61, 0x62, 0x63])
   \<and> fst (fetch Pgbytea (text_env no_fault) ''bank1'' ''k1''
        (snd (store Pgbytea (text_env no_fault) ''bank1'' ''k1'' (PyBytes [0x61, 0x62, 0x63]) bank_world)))
       = Inr (PyBytes [0x61, 0x62, 0x63])"
proof -
  let ?E = "text_env no_fault"
  have h1: "connected Pgbytea ?E default_options"
    by (rule connected_text_env)
  have h2: "execute ?E = pg_server no_fault syntax_error (\<lambda>_. 0) (\<lambda>_. ''6f1c2a3e-0b7d-4c55-9e21-3a8f5d0c7b19'')"
    by (rule execute_text_env)
  have p1: "sql_plain ''bank1''" and p2: "sql_plain ''k1''" by simp_all
  have h3: "loads ?E (CBytea (dumps ?E (PyBytes [0x61, 0x62, 0x63]))) = Inr (PyBytes [0x61, 0x62, 0x63])"
    by (simp add: payload_dumps_def payload_loads_def)
  from fetch_after_store [OF h1 h2 p1 p2, of "PyBytes [0x61, 0x62, 0x63]" bank_world] h1 h2 h3 p1 p2
  show ?thesis by simp
qed

section \<open>Which errors reach the caller\<close>

lemma serv_refused:
  assumes "\<exists>cfg. fst (get_options var (str_to_int env) (opts env)) = Inr cfg
             \<and> connect env cfg = Some (Psycopg OperationalError)"
  shows "serv var env body w = (Inl SaltMasterError, w)"
  using assms by (auto simp: serv_get_serv get_serv_def)

text \<open>
  Claim C2, as the specification states it, says that only the failure to connect reaches
  the caller. It is not the only one: \<^verbatim>\<open>fetch\<close> runs its statement outside any
  \<^verbatim>\<open>try\<close>, so an error of the statement is logged and rolled back by the scope and
  raised again; and \<^verbatim>\<open>fetch\<close> catches \<^verbatim>\<open>IndexError\<close> only, so a payload that does not
  deserialize raises out of it.
\<close>

theorem fetch_raises_counterexample:
  "fst (fetch Pgbytea (run_env Map.empty (fault_on (Select_data ''salt_cache'' ''minions'' ''web1'') (Psycopg ProgrammingError)))
          ''minions'' ''web1'' empty_world) = Inl (Psycopg ProgrammingError)
   \<and> fst (fetch Pgbytea plain_env ''minions'' ''web1'' corrupt_world) = Inl DeserializationError"
proof -
  have a: "fst (fetch Pgbytea (run_env Map.empty (fault_on (Select_data ''salt_cache'' ''minions'' ''web1'') (Psycopg ProgrammingError)))
          ''minions'' ''web1'' empty_world) = Inl (Psycopg ProgrammingError)"
    by (simp add: fetch_def fetch_pgbytea_def serv_connected [OF connected_run_env] run_defs
        execute_run_env fault_on_def empty_world_def)
  have b: "fst (fetch Pgbytea plain_env ''minions'' ''web1'' corrupt_world) = Inl DeserializationError"
    by (simp add: fetch_def plain_env_def fetch_pgbytea_rows [OF connected_run_env execute_run_env]
        corrupt_world_def matches_def fetch_try_pgbytea_def index00_def payload_loads_def)
  from a b show ?thesis by simp
qed

lemma serv_raises:
  assumes "connected var env cfg"
    and "body (py_str (opt_table cfg)) (conn_open cfg w) = (Inl e, w1)"
    and "\<forall>d x. fst (execute env ROLLBACK d) \<noteq> Inl x"
  shows "fst (serv var env body w) = Inl e"
    and "trace (snd (serv var env body w))
       = trace w1 @ (if is_DatabaseError e then [LogError (Args e), Execute ROLLBACK, Close] else [Close])"
proof -
  obtain r2 w2 where x: "cur_execute env ROLLBACK (log_error (Args e) w1) = (r2, w2)"
    by (cases "cur_execute env ROLLBACK (log_error (Args e) w1)")
  have t: "trace w2 = trace w1 @ [LogError (Args e), Execute ROLLBACK]"
    using trace_cur_execute [of env ROLLBACK "log_error (Args e) w1"] x by simp
  have f: "r2 = fst (execute env ROLLBACK (db w1))"
    using fst_cur_execute [of env ROLLBACK "log_error (Args e) w1"] x by simp
  have "\<exists>y. r2 = Inr y"
  proof (cases r2)
    case (Inl a)
    with f assms(3) show ?thesis by metis
  next
    case (Inr b)
    then show ?thesis by blast
  qed
  then obtain y where y: "r2 = Inr y" ..
  show "fst (serv var env body w) = Inl e"
    using assms(2) x y by (simp add: serv_connected [OF assms(1)])
  show "trace (snd (serv var env body w))
       = trace w1 @ (if is_DatabaseError e then [LogError (Args e), Execute ROLLBACK, Close] else [Close])"
    using assms(2) x y t by (simp add: serv_connected [OF assms(1)])
qed

lemma serv_returns:
  assumes "connected var env cfg"
    and "body (py_str (opt_table cfg)) (conn_open cfg w) = (Inr v, w1)"
    and "\<forall>d x. fst (execute env COMMIT d) \<noteq> Inl x"
  shows "fst (serv var env body w) = Inr v"
proof -
  obtain r2 w2 where x: "cur_execute env COMMIT w1 = (r2, w2)"
    by (cases "cur_execute env COMMIT w1")
  have f: "r2 = fst (execute env COMMIT (db w1))"
    using fst_cur_execute [of env COMMIT w1] x by simp
  have "\<exists>y. r2 = Inr y"
  proof (cases r2)
    case (Inl a)
    with f assms(3) show ?thesis by metis
  next
    case (Inr b)
    then show ?thesis by blast
  qed
  then obtain y where y: "r2 = Inr y" ..
  show ?thesis
    using assms(2) x y by (simp add: serv_connected [OF assms(1)])
qed

lemma cur_execute_raises:
  assumes "fst (execute env q (db w)) = Inl e"
  shows "\<exists>d. cur_execute env q w = (Inl e, w\<lparr>db := d, trace := trace w @ [Execute q]\<rparr>)"
proof -
  obtain r d where x: "execute env q (db w) = (r, d)"
    by (cases "execute env q (db w)")
  with assms have "cur_execute env q w = (Inl e, w\<lparr>db := d, trace := trace w @ [Execute q]\<rparr>)"
    by (simp add: cur_execute_def)
  then show ?thesis ..
qed

lemma trace_conn_open [simp]: "trace (conn_open cfg w) = trace w @ [Connect cfg]"
  by (simp add: conn_open_def)

text \<open>
  Claim C2, amended: once the options resolve, a refused connection reaches the caller
  of every operation as \<^verbatim>\<open>SaltMasterError\<close>. With the connection made, on a server
  that raises a \<^verbatim>\<open>psycopg2.Error\<close> on every statement but \<^verbatim>\<open>COMMIT\<close> and
  \<^verbatim>\<open>ROLLBACK\<close>, which execute: \<^verbatim>\<open>store\<close> and \<^verbatim>\<open>flush\<close> absorb the error
  (\<^verbatim>\<open>store\<close> returns \<^verbatim>\<open>None\<close>, \<^verbatim>\<open>flush\<close> returns \<^verbatim>\<open>False\<close>), while \<^verbatim>\<open>fetch\<close>,
  \<^verbatim>\<open>list\<close>, \<^verbatim>\<open>contains\<close>, \<^verbatim>\<open>updated\<close> and \<^verbatim>\<open>id\<close> raise it to the caller, after
  the scope has logged it and issued \<^verbatim>\<open>ROLLBACK\<close> when it is a
  \<^verbatim>\<open>psycopg2.DatabaseError\<close>, and with neither when it is not (an
  \<^verbatim>\<open>InterfaceError\<close>); the connection is closed in both cases. And when the
  \<^verbatim>\<open>SELECT\<close> of the binary module's \<^verbatim>\<open>fetch\<close> hands back a payload that the codec
  rejects with an error that is neither an \<^verbatim>\<open>IndexError\<close> nor a database error,
  \<^verbatim>\<open>fetch\<close> raises that error to the caller.
\<close>

theorem error_propagation:
  assumes "fst (get_options var (str_to_int env) (opts env)) = Inr cfg"
  shows "(connect env cfg = Some (Psycopg OperationalError) \<longrightarrow>
            fst (store var env bank key v w) = Inl SaltMasterError
          \<and> fst (fetch var env bank key w) = Inl SaltMasterError
          \<and> fst (flush var env bank fkey w) = Inl SaltMasterError
          \<and> fst (cache_list var env bank w) = Inl SaltMasterError
          \<and> fst (contains var env bank key w) = Inl SaltMasterError
          \<and> fst (updated var env bank key w) = Inl SaltMasterError
          \<and> (var = Pgbytea \<longrightarrow> fst (cache_id env bank key w) = Inl SaltMasterError))
       \<and> (\<forall>pe j.
            connect env cfg = None
            \<and> (\<forall>q d. q \<noteq> COMMIT \<and> q \<noteq> ROLLBACK \<longrightarrow> fst (execute env q d) = Inl (Psycopg pe))
            \<and> (\<forall>d x. fst (execute env COMMIT d) \<noteq> Inl x)
            \<and> (\<forall>d x. fst (execute env ROLLBACK d) \<noteq> Inl x)
            \<and> (var = Pgjsonb_encoded \<longrightarrow> to_json env (snd (encode_payload env v)) = Inr j) \<longrightarrow>
            (let t = py_str (opt_table cfg);
                 raised = (\<lambda>q. trace w @ Connect cfg # Execute q #
                    (if is_DatabaseError (Psycopg pe)
                     then [LogError (Args (Psycopg pe)), Execute ROLLBACK, Close] else [Close]))
             in fst (store var env bank key v w) = Inr ()
              \<and> fst (flush var env bank fkey w) = Inr False
              \<and> fst (fetch var env bank key w) = Inl (Psycopg pe)
              \<and> trace (snd (fetch var env bank key w))
                 = raised (case var of Pgbytea \<Rightarrow> Select_data t bank key
                                     | Pgjsonb_encoded \<Rightarrow> Select_data_encoded t bank key)
              \<and> fst (cache_list var env bank w) = Inl (Psycopg pe)
              \<and> trace (snd (cache_list var env bank w)) = raised (Select_psql_key t bank)
              \<and> fst (contains var env bank key w) = Inl (Psycopg pe)
              \<and> trace (snd (contains var env bank key w)) = raised (Select_count t bank key)
              \<and> fst (updated var env bank key w) = Inl (Psycopg pe)
              \<and> trace (snd (updated var env bank key w)) = raised (Select_data_changed t bank key)
              \<and> (var = Pgbytea \<longrightarrow>
                    fst (cache_id env bank key w) = Inl (Psycopg pe)
                  \<and> trace (snd (cache_id env bank key w)) = raised (Select_id t bank key))))
       \<and> (\<forall>c cs rest e.
            var = Pgbytea \<and> connect env cfg = None
            \<and> fst (execute env (Select_data (py_str (opt_table cfg)) bank key)
                     ((db w)\<lparr>work := committed (db w)\<rparr>)) = Inr (Some ((c # cs) # rest))
            \<and> loads env c = Inl e \<and> e \<noteq> IndexError \<and> \<not> is_DatabaseError e \<longrightarrow>
            fst (fetch var env bank key w) = Inl e
          \<and> trace (snd (fetch var env bank key w))
             = trace w @ [Connect cfg, Execute (Select_data (py_str (opt_table cfg)) bank key), Close])"
proof (intro conjI allI impI)
  assume r: "connect env cfg = Some (Psycopg OperationalError)"
  with assms have s: "\<exists>cfg. fst (get_options var (str_to_int env) (opts env)) = Inr cfg
             \<and> connect env cfg = Some (Psycopg OperationalError)"
    by blast
  from s show "fst (store var env bank key v w) = Inl SaltMasterError"
    by (cases var) (simp_all add: store_def store_pgbytea_def store_pgjsonb_def serv_refused Let_def)
  from s show "fst (fetch var env bank key w) = Inl SaltMasterError"
    by (cases var) (simp_all add: fetch_def fetch_pgbytea_def fetch_pgjsonb_def serv_refused)
  from s show "fst (flush var env bank fkey w) = Inl SaltMasterError"
    by (simp add: flush_def serv_refused)
  from s show "fst (cache_list var env bank w) = Inl SaltMasterError"
    by (simp add: cache_list_def serv_refused)
  from s show "fst (contains var env bank key w) = Inl SaltMasterError"
    by (simp add: contains_def serv_refused)
  from s show "fst (updated var env bank key w) = Inl SaltMasterError"
    by (simp add: updated_def serv_refused)
  assume "var = Pgbytea"
  with s show "fst (cache_id env bank key w) = Inl SaltMasterError"
    by (simp add: cache_id_def serv_refused)
next
  fix pe j
  assume a: "connect env cfg = None
            \<and> (\<forall>q d. q \<noteq> COMMIT \<and> q \<noteq> ROLLBACK \<longrightarrow> fst (execute env q d) = Inl (Psycopg pe))
            \<and> (\<forall>d x. fst (execute env COMMIT d) \<noteq> Inl x)
            \<and> (\<forall>d x. fst (execute env ROLLBACK d) \<noteq> Inl x)
            \<and> (var = Pgjsonb_encoded \<longrightarrow> to_json env (snd (encode_payload env v)) = Inr j)"
  with assms have c: "connected var env cfg" by (simp add: connected_def)
  from a have ex: "\<And>q d. q \<noteq> COMMIT \<Longrightarrow> q \<noteq> ROLLBACK \<Longrightarrow> fst (execute env q d) = Inl (Psycopg pe)"
    by blast
  from a have cm: "\<forall>d x. fst (execute env COMMIT d) \<noteq> Inl x" by blast
  from a have rb: "\<forall>d x. fst (execute env ROLLBACK d) \<noteq> Inl x" by blast
  from a have j: "var = Pgjsonb_encoded \<longrightarrow> to_json env (snd (encode_payload env v)) = Inr j" by simp
  let ?t = "py_str (opt_table cfg)"
  let ?w0 = "conn_open cfg w"
  let ?tail = "if is_DatabaseError (Psycopg pe)
               then [LogError (Args (Psycopg pe)), Execute ROLLBACK, Close] else [Close]"
  have q: "\<exists>d. cur_execute env q ?w0 = (Inl (Psycopg pe), ?w0\<lparr>db := d, trace := trace ?w0 @ [Execute q]\<rparr>)"
    if "q \<noteq> COMMIT" "q \<noteq> ROLLBACK" for q
    by (rule cur_execute_raises) (rule ex [OF that])
  have st: "fst (store var env bank key v w) = Inr ()"
  proof (cases var)
    case Pgbytea
    with c have c': "connected Pgbytea env cfg" by simp
    let ?q = "Upsert ?t bank key (CBytea (dumps env v)) None"
    from q [of ?q] obtain d where
      x: "cur_execute env ?q ?w0 = (Inl (Psycopg pe), ?w0\<lparr>db := d, trace := trace ?w0 @ [Execute ?q]\<rparr>)"
      by auto
    let ?body = "\<lambda>table w.
        case cur_execute env (Upsert table bank key (CBytea (dumps env v)) None) w of
          (Inr _, w1) \<Rightarrow> (Inr (), w1)
        | (Inl e, w1) \<Rightarrow>
            if e = TypeError \<or> is_psycopg_Error e
            then (Inr (), log_context e
                    [(''table'', AStr table), (''bank'', AStr bank), (''psql_key'', AStr key),
                     (''data'', ACell (CBytea (dumps env v)))] w1)
            else (Inl e, w1)"
    have b: "?body ?t ?w0 = (Inr (), log_context (Psycopg pe)
                    [(''table'', AStr ?t), (''bank'', AStr bank), (''psql_key'', AStr key),
                     (''data'', ACell (CBytea (dumps env v)))]
                    (?w0\<lparr>db := d, trace := trace ?w0 @ [Execute ?q]\<rparr>))"
      by (simp add: x)
    from serv_returns [where body = ?body, OF c' b cm] Pgbytea show ?thesis
      by (simp add: store_def store_pgbytea_def Let_def)
  next
    case Pgjsonb_encoded
    with c have c': "connected Pgjsonb_encoded env cfg" by simp
    obtain enc d1 where ep: "encode_payload env v = (enc, d1)"
      by (cases "encode_payload env v")
    with Pgjsonb_encoded j have tj: "to_json env d1 = Inr j" by simp
    let ?q = "Upsert ?t bank key (CJsonb j) (Some enc)"
    from q [of ?q] obtain d where
      x: "cur_execute env ?q ?w0 = (Inl (Psycopg pe), ?w0\<lparr>db := d, trace := trace ?w0 @ [Execute ?q]\<rparr>)"
      by auto
    let ?body = "\<lambda>table w.
       case encode_payload env v of
         (encoded, data1) \<Rightarrow>
           (case to_json env data1 of
              Inl e \<Rightarrow> (Inl e, w)
            | Inr j \<Rightarrow>
                (case cur_execute env (Upsert table bank key (CJsonb j) (Some encoded)) w of
                   (Inr _, w1) \<Rightarrow> (Inr (), w1)
                 | (Inl e, w1) \<Rightarrow>
                     if is_psycopg_Error e
                     then (Inr (), log_context e
                             [(''table'', AStr table), (''bank'', AStr bank), (''psql_key'', AStr key),
                              (''data'', ACell (CJsonb j))] w1)
                     else (Inl e, w1)))"
    have b: "?body ?t ?w0 = (Inr (), log_context (Psycopg pe)
                    [(''table'', AStr ?t), (''bank'', AStr bank), (''psql_key'', AStr key),
                     (''data'', ACell (CJsonb j))]
                    (?w0\<lparr>db := d, trace := trace ?w0 @ [Execute ?q]\<rparr>))"
      by (simp add: ep tj x)
    from serv_returns [where body = ?body, OF c' b cm] Pgjsonb_encoded show ?thesis
      by (simp add: store_def store_pgjsonb_def)
  qed
  have fl: "fst (flush var env bank fkey w) = Inr False"
  proof -
    let ?q = "Delete ?t bank (case fkey of None \<Rightarrow> None | Some k \<Rightarrow> if k \<noteq> [] then Some k else None)"
    from q [of ?q] obtain d where
      x: "cur_execute env ?q ?w0 = (Inl (Psycopg pe), ?w0\<lparr>db := d, trace := trace ?w0 @ [Execute ?q]\<rparr>)"
      by auto
    let ?body = "\<lambda>table w.
       let q = Delete table bank (case fkey of None \<Rightarrow> None | Some k \<Rightarrow> if k \<noteq> [] then Some k else None) in
       case cur_execute env q w of
         (Inr _, w1) \<Rightarrow> (Inr True, w1)
       | (Inl e, w1) \<Rightarrow>
           if is_psycopg_Error e
           then (Inr False, log_context e
                   [(''table'', AStr table), (''bank'', AStr bank),
                    (''psql_key'', case fkey of None \<Rightarrow> ANone | Some k \<Rightarrow> AStr k)] w1)
           else (Inl e, w1)"
    have b: "?body ?t ?w0 = (Inr False, log_context (Psycopg pe)
                   [(''table'', AStr ?t), (''bank'', AStr bank),
                    (''psql_key'', case fkey of None \<Rightarrow> ANone | Some k \<Rightarrow> AStr k)]
                   (?w0\<lparr>db := d, trace := trace ?w0 @ [Execute ?q]\<rparr>))"
      by (simp add: Let_def x)
    from serv_returns [where body = ?body, OF c b cm] show ?thesis
      by (simp add: flush_def)
  qed
  have fe: "fst (fetch var env bank key w) = Inl (Psycopg pe)
      \<and> trace (snd (fetch var env bank key w))
         = trace w @ Connect cfg # Execute (case var of Pgbytea \<Rightarrow> Select_data ?t bank key
                                     | Pgjsonb_encoded \<Rightarrow> Select_data_encoded ?t bank key) # ?tail"
  proof (cases var)
    case Pgbytea
    with c have c': "connected Pgbytea env cfg" by simp
    let ?q = "Select_data ?t bank key"
    from q [of ?q] obtain d where
      x: "cur_execute env ?q ?w0 = (Inl (Psycopg pe), ?w0\<lparr>db := d, trace := trace ?w0 @ [Execute ?q]\<rparr>)"
      by auto
    let ?body = "\<lambda>table w.
       case cur_execute env (Select_data table bank key) w of
         (Inl e, w1) \<Rightarrow> (Inl e, w1)
       | (Inr None, w1) \<Rightarrow> (Inr (PyDict []), w1)
       | (Inr (Some rows), w1) \<Rightarrow>
           except_IndexError table bank key (Some rows) (PyDict []) (fetch_try_pgbytea env rows) w1"
    have b: "?body ?t ?w0 = (Inl (Psycopg pe), ?w0\<lparr>db := d, trace := trace ?w0 @ [Execute ?q]\<rparr>)"
      by (simp add: x)
    from serv_raises [where body = ?body, OF c' b rb] Pgbytea show ?thesis
      by (simp add: fetch_def fetch_pgbytea_def)
  next
    case Pgjsonb_encoded
    with c have c': "connected Pgjsonb_encoded env cfg" by simp
    let ?q = "Select_data_encoded ?t bank key"
    from q [of ?q] obtain d where
      x: "cur_execute env ?q ?w0 = (Inl (Psycopg pe), ?w0\<lparr>db := d, trace := trace ?w0 @ [Execute ?q]\<rparr>)"
      by auto
    let ?body = "\<lambda>table w.
       case cur_execute env (Select_data_encoded table bank key) w of
         (Inl e, w1) \<Rightarrow> (Inl e, w1)
       | (Inr None, w1) \<Rightarrow> (Inr (PyDict []), w1)
       | (Inr (Some rows), w1) \<Rightarrow>
           except_IndexError table bank key (Some rows) (PyDict []) (fetch_try_pgjsonb env rows) w1"
    have b: "?body ?t ?w0 = (Inl (Psycopg pe), ?w0\<lparr>db := d, trace := trace ?w0 @ [Execute ?q]\<rparr>)"
      by (simp add: x)
    from serv_raises [where body = ?body, OF c' b rb] Pgjsonb_encoded show ?thesis
      by (simp add: fetch_def fetch_pgjsonb_def)
  qed
  have li: "fst (cache_list var env bank w) = Inl (Psycopg pe)
      \<and> trace (snd (cache_list var env bank w))
         = trace w @ Connect cfg # Execute (Select_psql_key ?t bank) # ?tail"
  proof -
    let ?q = "Select_psql_key ?t bank"
    from q [of ?q] obtain d where
      x: "cur_execute env ?q ?w0 = (Inl (Psycopg pe), ?w0\<lparr>db := d, trace := trace ?w0 @ [Execute ?q]\<rparr>)"
      by auto
    let ?body = "\<lambda>table w.
       case cur_execute env (Select_psql_key table bank) w of
         (Inl e, w1) \<Rightarrow> (Inl e, w1)
       | (Inr data, w1) \<Rightarrow> (Inr (list_tuple data), w1)"
    have b: "?body ?t ?w0 = (Inl (Psycopg pe), ?w0\<lparr>db := d, trace := trace ?w0 @ [Execute ?q]\<rparr>)"
      by (simp add: x)
    from serv_raises [where body = ?body, OF c b rb] show ?thesis
      by (simp add: cache_list_def)
  qed
  have co: "fst (contains var env bank key w) = Inl (Psycopg pe)
      \<and> trace (snd (contains var env bank key w))
         = trace w @ Connect cfg # Execute (Select_count ?t bank key) # ?tail"
  proof -
    let ?q = "Select_count ?t bank key"
    from q [of ?q] obtain d where
      x: "cur_execute env ?q ?w0 = (Inl (Psycopg pe), ?w0\<lparr>db := d, trace := trace ?w0 @ [Execute ?q]\<rparr>)"
      by auto
    let ?body = "\<lambda>table w.
       case cur_execute env (Select_count table bank key) w of
         (Inl e, w1) \<Rightarrow> (Inl e, w1)
       | (Inr None, w1) \<Rightarrow> (Inl TypeError, w1)
       | (Inr (Some rows), w1) \<Rightarrow>
           (case index00 rows of
              Inl e \<Rightarrow> (Inl e, w1)
            | Inr c \<Rightarrow> (Inr (py_of_cell c = PyInt 1 \<or> py_of_cell c = PyBool True), w1))"
    have b: "?body ?t ?w0 = (Inl (Psycopg pe), ?w0\<lparr>db := d, trace := trace ?w0 @ [Execute ?q]\<rparr>)"
      by (simp add: x)
    from serv_raises [where body = ?body, OF c b rb] show ?thesis
      by (simp add: contains_def)
  qed
  have up: "fst (updated var env bank key w) = Inl (Psycopg pe)
      \<and> trace (snd (updated var env bank key w))
         = trace w @ Connect cfg # Execute (Select_data_changed ?t bank key) # ?tail"
  proof -
    let ?q = "Select_data_changed ?t bank key"
    from q [of ?q] obtain d where
      x: "cur_execute env ?q ?w0 = (Inl (Psycopg pe), ?w0\<lparr>db := d, trace := trace ?w0 @ [Execute ?q]\<rparr>)"
      by auto
    let ?body = "\<lambda>table w.
       case cur_execute env (Select_data_changed table bank key) w of
         (Inl e, w1) \<Rightarrow> (Inl e, w1)
       | (Inr None, w1) \<Rightarrow> (Inr (PyInt 0), w1)
       | (Inr (Some rows), w1) \<Rightarrow>
           except_IndexError table bank key (Some rows) (PyInt 0)
             (case index00 rows of Inl e \<Rightarrow> Inl e | Inr c \<Rightarrow> Inr (py_of_cell c)) w1"
    have b: "?body ?t ?w0 = (Inl (Psycopg pe), ?w0\<lparr>db := d, trace := trace ?w0 @ [Execute ?q]\<rparr>)"
      by (simp add: x)
    from serv_raises [where body = ?body, OF c b rb] show ?thesis
      by (simp add: updated_def)
  qed
  have idc: "var = Pgbytea \<longrightarrow>
        fst (cache_id env bank key w) = Inl (Psycopg pe)
      \<and> trace (snd (cache_id env bank key w))
         = trace w @ Connect cfg # Execute (Select_id ?t bank key) # ?tail"
  proof
    assume "var = Pgbytea"
    with c have c': "connected Pgbytea env cfg" by simp
    let ?q = "Select_id ?t bank key"
    from q [of ?q] obtain d where
      x: "cur_execute env ?q ?w0 = (Inl (Psycopg pe), ?w0\<lparr>db := d, trace := trace ?w0 @ [Execute ?q]\<rparr>)"
      by auto
    let ?body = "\<lambda>table w.
       case cur_execute env (Select_id table bank key) w of
         (Inl e, w1) \<Rightarrow> (Inl e, w1)
       | (Inr None, w1) \<Rightarrow> (Inr NIL_UUID, w1)
       | (Inr (Some rows), w1) \<Rightarrow>
           except_IndexError table bank key (Some rows) NIL_UUID
             (case index00 rows of Inl e \<Rightarrow> Inl e | Inr c \<Rightarrow> uuid_UUID env (py_of_cell c)) w1"
    have b: "?body ?t ?w0 = (Inl (Psycopg pe), ?w0\<lparr>db := d, trace := trace ?w0 @ [Execute ?q]\<rparr>)"
      by (simp add: x)
    from serv_raises [where body = ?body, OF c' b rb]
    show "fst (cache_id env bank key w) = Inl (Psycopg pe)
      \<and> trace (snd (cache_id env bank key w))
         = trace w @ Connect cfg # Execute (Select_id ?t bank key) # ?tail"
      by (simp add: cache_id_def)
  qed
  from st fl fe li co up idc
  show "let t = py_str (opt_table cfg);
            raised = (\<lambda>q. trace w @ Connect cfg # Execute q #
                    (if is_DatabaseError (Psycopg pe)
                     then [LogError (Args (Psycopg pe)), Execute ROLLBACK, Close] else [Close]))
        in fst (store var env bank key v w) = Inr ()
              \<and> fst (flush var env bank fkey w) = Inr False
              \<and> fst (fetch var env bank key w) = Inl (Psycopg pe)
              \<and> trace (snd (fetch var env bank key w))
                 = raised (case var of Pgbytea \<Rightarrow> Select_data t bank key
                                     | Pgjsonb_encoded \<Rightarrow> Select_data_encoded t bank key)
              \<and> fst (cache_list var env bank w) = Inl (Psycopg pe)
              \<and> trace (snd (cache_list var env bank w)) = raised (Select_psql_key t bank)
              \<and> fst (contains var env bank key w) = Inl (Psycopg pe)
              \<and> trace (snd (contains var env bank key w)) = raised (Select_count t bank key)
              \<and> fst (updated var env bank key w) = Inl (Psycopg pe)
              \<and> trace (snd (updated var env bank key w)) = raised (Select_data_changed t bank key)
              \<and> (var = Pgbytea \<longrightarrow>
                    fst (cache_id env bank key w) = Inl (Psycopg pe)
                  \<and> trace (snd (cache_id env bank key w)) = raised (Select_id t bank key))"
    unfolding Let_def by blast
next
  fix c cs rest e
  assume a: "var = Pgbytea \<and> connect env cfg = None
            \<and> fst (execute env (Select_data (py_str (opt_table cfg)) bank key)
                     ((db w)\<lparr>work := committed (db w)\<rparr>)) = Inr (Some ((c # cs) # rest))
            \<and> loads env c = Inl e \<and> e \<noteq> IndexError \<and> \<not> is_DatabaseError e"
  with assms have c': "connected Pgbytea env cfg" by (simp add: connected_def)
  let ?t = "py_str (opt_table cfg)"
  let ?q = "Select_data ?t bank key"
  obtain r d where x: "execute env ?q ((db w)\<lparr>work := committed (db w)\<rparr>) = (r, d)"
    by (cases "execute env ?q ((db w)\<lparr>work := committed (db w)\<rparr>)")
  with a have r: "r = Inr (Some ((c # cs) # rest))" by simp
  from a x r
  have f: "fst (fetch_pgbytea env bank key w) = Inl e
      \<and> trace (snd (fetch_pgbytea env bank key w)) = trace w @ [Connect cfg, Execute ?q, Close]"
    by (simp add: fetch_pgbytea_def serv_connected [OF c'] cur_execute_def conn_open_def
        except_IndexError_def fetch_try_pgbytea_def index00_def)
  from f a show "fst (fetch var env bank key w) = Inl e"
    by (simp add: fetch_def)
  from f a show "trace (snd (fetch var env bank key w))
             = trace w @ [Connect cfg, Execute (Select_data (py_str (opt_table cfg)) bank key), Close]"
    by (simp add: fetch_def)
qed

text \<open>The amended claim C2 in the binary module: on a server that refuses the connection,
  on one that rejects every statement with an \<^verbatim>\<open>OperationalError\<close>, on one that rejects
  them with an \<^verbatim>\<open>InterfaceError\<close>, and on a table with a corrupt payload.\<close>

theorem error_propagation_witness:
  "connect (plain_env\<lparr>connect := (\<lambda>_. Some (Psycopg OperationalError))\<rparr>) default_options
       = Some (Psycopg OperationalError)
   \<and> fst (fetch Pgbytea (plain_env\<lparr>connect := (\<lambda>_. Some (Psycopg OperationalError))\<rparr>)
        ''minions'' ''web1'' bank_world) = Inl SaltMasterError
   \<and> execute (run_env Map.empty (fault_data (Psycopg OperationalError)))
       = postgres (fault_data (Psycopg OperationalError)) (\<lambda>_. 0) (\<lambda>_. ''6f1c2a3e-0b7d-4c55-9e21-3a8f5d0c7b19'')
   \<and> fst (store Pgbytea (run_env Map.empty (fault_data (Psycopg OperationalError)))
        ''minions'' ''web1'' PyNone bank_world) = Inr ()
   \<and> fst (flush Pgbytea (run_env Map.empty (fault_data (Psycopg OperationalError)))
        ''minions'' None bank_world) = Inr False
   \<and> fst (fetch Pgbytea (run_env Map.empty (fault_data (Psycopg OperationalError)))
        ''minions'' ''web1'' bank_world) = Inl (Psycopg OperationalError)
   \<and> trace (snd (fetch Pgbytea (run_env Map.empty (fault_data (Psycopg OperationalError)))
        ''minions'' ''web1'' bank_world))
       = [Connect default_options, Execute (Select_data ''salt_cache'' ''minions'' ''web1''),
          LogError (Args (Psycopg OperationalError)), Execute ROLLBACK, Close]
   \<and> fst (contains Pgbytea (run_env Map.empty (fault_data (Psycopg InterfaceError)))
        ''minions'' ''web1'' bank_world) = Inl (Psycopg InterfaceError)
   \<and> trace (snd (contains Pgbytea (run_env Map.empty (fault_data (Psycopg InterfaceError)))
        ''minions'' ''web1'' bank_world))
       = [Connect default_options, Execute (Select_count ''salt_cache'' ''minions'' ''web1''), Close]
   \<and> fst (execute (text_env no_fault) (Select_data ''salt_cache'' ''minions'' ''web1'')
        ((db corrupt_world)\<lparr>work := committed (db corrupt_world)\<rparr>)) = Inr (Some [[CBytea [0xC1]]])
   \<and> loads (text_env no_fault) (CBytea [0xC1]) = Inl DeserializationError
   \<and> fst (fetch Pgbytea (text_env no_fault) ''minions'' ''web1'' corrupt_world) = Inl DeserializationError
   \<and> trace (snd (fetch Pgbytea (text_env no_fault) ''minions'' ''web1'' corrupt_world))
       = [Connect default_options, Execute (Select_data ''salt_cache'' ''minions'' ''web1''), Close]"
proof -
  let ?R = "plain_env\<lparr>connect := (\<lambda>_. Some (Psycopg OperationalError))\<rparr>"
  let ?F = "run_env Map.empty (fault_data (Psycopg OperationalError))"
  let ?I = "run_env Map.empty (fault_data (Psycopg InterfaceError))"
  let ?T = "text_env no_fault"
  have nj: "Pgbytea = Pgjsonb_encoded \<longrightarrow> to_json env (snd (encode_payload env PyNone)) = Inr PyNone" for env
    by simp
  have r1: "fst (get_options Pgbytea (str_to_int ?R) (opts ?R)) = Inr default_options"
    by (simp add: plain_env_def get_options_empty)
  have r2: "connect ?R default_options = Some (Psycopg OperationalError)"
    by simp
  from error_propagation [OF r1, of "''minions''" "''web1''" PyNone bank_world None] r2
  have r: "fst (fetch Pgbytea ?R ''minions'' ''web1'' bank_world) = Inl SaltMasterError"
    by blast
  have f1: "fst (get_options Pgbytea (str_to_int (run_env Map.empty f)) (opts (run_env Map.empty f)))
      = Inr default_options" for f
    by (simp add: get_options_empty)
  have f2: "connect (run_env Map.empty f) default_options = None" for f
    by simp
  have f3: "execute ?F = postgres (fault_data (Psycopg OperationalError)) (\<lambda>_. 0)
      (\<lambda>_. ''6f1c2a3e-0b7d-4c55-9e21-3a8f5d0c7b19'')"
    by (rule execute_run_env)
  have f4: "\<forall>q d. q \<noteq> COMMIT \<and> q \<noteq> ROLLBACK \<longrightarrow>
      fst (execute (run_env Map.empty (fault_data (Psycopg pe))) q d) = Inl (Psycopg pe)" for pe
    by (simp add: execute_run_env postgres_def fault_data_def)
  have f5: "\<forall>d x. fst (execute (run_env Map.empty (fault_data (Psycopg pe))) COMMIT d) \<noteq> Inl x" for pe
    by (simp add: execute_run_env postgres_def fault_data_def)
  have f6: "\<forall>d x. fst (execute (run_env Map.empty (fault_data (Psycopg pe))) ROLLBACK d) \<noteq> Inl x" for pe
    by (simp add: execute_run_env postgres_def fault_data_def)
  from error_propagation [OF f1, of "fault_data (Psycopg OperationalError)"
      "''minions''" "''web1''" PyNone bank_world None, unfolded Let_def]
    f2 [of "fault_data (Psycopg OperationalError)"] f4 [of OperationalError] f5 [of OperationalError]
    f6 [of OperationalError] nj [of ?F]
  have "fst (store Pgbytea ?F ''minions'' ''web1'' PyNone bank_world) = Inr ()
      \<and> fst (flush Pgbytea ?F ''minions'' None bank_world) = Inr False
      \<and> fst (fetch Pgbytea ?F ''minions'' ''web1'' bank_world) = Inl (Psycopg OperationalError)
      \<and> trace (snd (fetch Pgbytea ?F ''minions'' ''web1'' bank_world))
         = trace bank_world @ Connect default_options #
             Execute (case Pgbytea of Pgbytea \<Rightarrow> Select_data (py_str (opt_table default_options)) ''minions'' ''web1''
                      | Pgjsonb_encoded \<Rightarrow> Select_data_encoded (py_str (opt_table default_options)) ''minions'' ''web1'') #
             (if is_DatabaseError (Psycopg OperationalError)
              then [LogError (Args (Psycopg OperationalError)), Execute ROLLBACK, Close] else [Close])"
    by blast
  then have f: "fst (store Pgbytea ?F ''minions'' ''web1'' PyNone bank_world) = Inr ()
      \<and> fst (flush Pgbytea ?F ''minions'' None bank_world) = Inr False
      \<and> fst (fetch Pgbytea ?F ''minions'' ''web1'' bank_world) = Inl (Psycopg OperationalError)
      \<and> trace (snd (fetch Pgbytea ?F ''minions'' ''web1'' bank_world))
         = [Connect default_options, Execute (Select_data ''salt_cache'' ''minions'' ''web1''),
            LogError (Args (Psycopg OperationalError)), Execute ROLLBACK, Close]"
    by (simp add: bank_world_def)
  from error_propagation [OF f1, of "fault_data (Psycopg InterfaceError)"
      "''minions''" "''web1''" PyNone bank_world None, unfolded Let_def]
    f2 [of "fault_data (Psycopg InterfaceError)"] f4 [of InterfaceError] f5 [of InterfaceError]
    f6 [of InterfaceError] nj [of ?I]
  have "fst (contains Pgbytea ?I ''minions'' ''web1'' bank_world) = Inl (Psycopg InterfaceError)
      \<and> trace (snd (contains Pgbytea ?I ''minions'' ''web1'' bank_world))
         = trace bank_world @ Connect default_options #
             Execute (Select_count (py_str (opt_table default_options)) ''minions'' ''web1'') #
             (if is_DatabaseError (Psycopg InterfaceError)
              then [LogError (Args (Psycopg InterfaceError)), Execute ROLLBACK, Close] else [Close])"
    by blast
  then have i: "fst (contains Pgbytea ?I ''minions'' ''web1'' bank_world) = Inl (Psycopg InterfaceError)
      \<and> trace (snd (contains Pgbytea ?I ''minions'' ''web1'' bank_world))
         = [Connect default_options, Execute (Select_count ''salt_cache'' ''minions'' ''web1''), Close]"
    by (simp add: bank_world_def)
  have p1: "fst (get_options Pgbytea (str_to_int ?T) (opts ?T)) = Inr default_options"
    by (simp add: get_options_empty)
  have p2: "connect ?T default_options = None"
    by simp
  have p3: "fst (execute ?T (Select_data ''salt_cache'' ''minions'' ''web1'')
        ((db corrupt_world)\<lparr>work := committed (db corrupt_world)\<rparr>)) = Inr (Some [[CBytea [0xC1]]])"
    by (simp add: execute_text_env text_defs postgres_def no_fault_def corrupt_world_def matches_def)
  then have p3': "fst (execute ?T (Select_data (py_str (opt_table default_options)) ''minions'' ''web1'')
        ((db corrupt_world)\<lparr>work := committed (db corrupt_world)\<rparr>)) = Inr (Some ((CBytea [0xC1] # []) # []))"
    by simp
  have p4: "loads ?T (CBytea [0xC1]) = Inl DeserializationError"
    by (simp add: payload_loads_def)
  have p5: "DeserializationError \<noteq> IndexError" "\<not> is_DatabaseError DeserializationError"
    by simp_all
  from error_propagation [OF p1, of "''minions''" "''web1''" PyNone corrupt_world None] p2 p3' p4 p5
  have "fst (fetch Pgbytea ?T ''minions'' ''web1'' corrupt_world) = Inl DeserializationError
      \<and> trace (snd (fetch Pgbytea ?T ''minions'' ''web1'' corrupt_world))
         = trace corrupt_world @ [Connect default_options,
             Execute (Select_data (py_str (opt_table default_options)) ''minions'' ''web1''), Close]"
    by blast
  then have p: "fst (fetch Pgbytea ?T ''minions'' ''web1'' corrupt_world) = Inl DeserializationError
      \<and> trace (snd (fetch Pgbytea ?T ''minions'' ''web1'' corrupt_world))
         = [Connect default_options, Execute (Select_data ''salt_cache'' ''minions'' ''web1''), Close]"
    by (simp add: corrupt_world_def)
  from r2 r f3 f i p3 p4 p show ?thesis by blast
qed

end
